theory Spec2Isabelle
  imports Main "HOL-Library.AList" "HOL-Library.Sublist"
begin

section \<open>JavaScript values as the validation module sees them\<close>

text \<open>
  The server parses request bodies with \<^verbatim>\<open>express.json()\<close>, and the unit tests call the
  validation module with object literals. A value is therefore one of the JSON shapes, or
  \<^verbatim>\<open>undefined\<close> (a missing property, or an explicit one in an object literal), or
  \<^verbatim>\<open>NaN\<close>, the one number that is falsy without being zero.

  A string is a list of code units, one \<^typ>\<open>char\<close> per UTF-16 code unit, so
  \<^verbatim>\<open>.length\<close> is \<^const>\<open>length\<close>. The model covers the strings whose code units are below
  256 (Latin-1), which \<^verbatim>\<open>trim\<close> and \<^verbatim>\<open>toLowerCase\<close> map to themselves.
  The module inspects a number only through its truthiness and its \<^verbatim>\<open>typeof\<close>, so an
  integer stands for it. An object is the list of its own enumerable properties in the
  order of the object; a key is looked up with \<^const>\<open>map_of\<close>.
\<close>

datatype jsval =
    JUndefined
  | JNull
  | JBool bool
  | JNumber int
  | JNaN
  | JString string
  | JArray "jsval list"
  | JObject "(string \<times> jsval) list"

type_synonym jsobj = "(string \<times> jsval) list"

datatype js_error = TypeError

fun truthy :: "jsval \<Rightarrow> bool" where
  "truthy JUndefined = False"
| "truthy JNull = False"
| "truthy (JBool b) = b"
| "truthy (JNumber n) = (n \<noteq> 0)"
| "truthy JNaN = False"
| "truthy (JString s) = (s \<noteq> [])"
| "truthy (JArray xs) = True"
| "truthy (JObject ps) = True"

fun typeof :: "jsval \<Rightarrow> string" where
  "typeof JUndefined = ''undefined''"
| "typeof JNull = ''object''"
| "typeof (JBool b) = ''boolean''"
| "typeof (JNumber n) = ''number''"
| "typeof JNaN = ''number''"
| "typeof (JString s) = ''string''"
| "typeof (JArray xs) = ''object''"
| "typeof (JObject ps) = ''object''"

fun isArray :: "jsval \<Rightarrow> bool" where
  "isArray (JArray xs) = True"
| "isArray v = False"

text \<open>
  Reading one of the bug fields \<^verbatim>\<open>title, description, status, priority, reporter,
  assignee, tags\<close> from a value. Reading a property of \<^verbatim>\<open>undefined\<close> or \<^verbatim>\<open>null\<close>
  throws; a missing property is \<^verbatim>\<open>undefined\<close>; no primitive and no array has a property
  of one of these seven names.
\<close>

definition property :: "jsobj \<Rightarrow> string \<Rightarrow> jsval" where
  "property ps k = (case map_of ps k of None \<Rightarrow> JUndefined | Some v \<Rightarrow> v)"

fun getField :: "jsval \<Rightarrow> string \<Rightarrow> js_error + jsval" where
  "getField JUndefined k = Inl TypeError"
| "getField JNull k = Inl TypeError"
| "getField (JObject ps) k = Inr (property ps k)"
| "getField v k = Inr JUndefined"

text \<open>An exception leaves the function at once; the rest runs on a returned value only.\<close>

definition andThen :: "js_error + 'a \<Rightarrow> ('a \<Rightarrow> js_error + 'b) \<Rightarrow> js_error + 'b" where
  "andThen r f = (case r of Inl e \<Rightarrow> Inl e | Inr x \<Rightarrow> f x)"

subsection \<open>String methods\<close>

text \<open>
  The white space and line terminators of ECMAScript below code unit 256: TAB, LF, VT, FF,
  CR, SP and NBSP.
\<close>

definition isWhiteSpace :: "char \<Rightarrow> bool" where
  "isWhiteSpace c \<longleftrightarrow>
     c \<in> set [CHR 0x09, CHR 0x0A, CHR 0x0B, CHR 0x0C, CHR 0x0D, CHR 0x20, CHR 0xA0]"

definition trim :: "string \<Rightarrow> string" where
  "trim s = rev (dropWhile isWhiteSpace (rev (dropWhile isWhiteSpace s)))"

text \<open>A method call \<^verbatim>\<open>v.trim()\<close>: only a string has the method.\<close>

fun callTrim :: "jsval \<Rightarrow> js_error + string" where
  "callTrim (JString s) = Inr (trim s)"
| "callTrim v = Inl TypeError"

text \<open>\<^verbatim>\<open>xs.includes(v)\<close> on an array of string literals: a string equal to one of them.\<close>

fun arrayIncludes :: "string list \<Rightarrow> jsval \<Rightarrow> bool" where
  "arrayIncludes xs (JString s) = (s \<in> set xs)"
| "arrayIncludes xs v = False"

text \<open>The decimal numeral a template literal prints for an array index.\<close>

fun decimal :: "nat \<Rightarrow> string" where
  "decimal n =
     (if n < 10 then [''0123456789'' ! n]
      else decimal (n div 10) @ [''0123456789'' ! (n mod 10)])"

declare decimal.simps [simp del]

section \<open>validateBugData\<close>

record validation =
  isValid :: bool
  errors :: "string list"

definition push :: "string list \<Rightarrow> string \<Rightarrow> string list" where
  "push errs e = errs @ [e]"

definition validStatuses :: "string list" where
  "validStatuses = [''open'', ''in-progress'', ''resolved'', ''closed'']"

definition validPriorities :: "string list" where
  "validPriorities = [''low'', ''medium'', ''high'', ''critical'']"

text \<open>
  Title validation (lines 12 to 18). Once \<^verbatim>\<open>title.trim()\<close> has returned, the title is a
  string and \<^verbatim>\<open>title.length\<close> is the number of its code units.
\<close>

definition titleValidation :: "jsval \<Rightarrow> string list \<Rightarrow> js_error + string list" where
  "titleValidation bugData errs =
     (case getField bugData ''title'' of
        Inl e \<Rightarrow> Inl e
      | Inr title \<Rightarrow>
          if \<not> truthy title \<or> typeof title \<noteq> ''string''
          then Inr (push errs ''Title is required and must be a string'')
          else (case callTrim title of
                  Inl e \<Rightarrow> Inl e
                | Inr trimmed \<Rightarrow>
                    if length trimmed = 0 then Inr (push errs ''Title cannot be empty'')
                    else (case title of
                            JString s \<Rightarrow>
                              if length s > 100
                              then Inr (push errs ''Title cannot exceed 100 characters'')
                              else Inr errs
                          | _ \<Rightarrow> Inr errs)))"

text \<open>Description validation (lines 21 to 27).\<close>

definition descriptionValidation :: "jsval \<Rightarrow> string list \<Rightarrow> js_error + string list" where
  "descriptionValidation bugData errs =
     (case getField bugData ''description'' of
        Inl e \<Rightarrow> Inl e
      | Inr description \<Rightarrow>
          if \<not> truthy description \<or> typeof description \<noteq> ''string''
          then Inr (push errs ''Description is required and must be a string'')
          else (case callTrim description of
                  Inl e \<Rightarrow> Inl e
                | Inr trimmed \<Rightarrow>
                    if length trimmed = 0 then Inr (push errs ''Description cannot be empty'')
                    else (case description of
                            JString s \<Rightarrow>
                              if length s > 1000
                              then Inr (push errs ''Description cannot exceed 1000 characters'')
                              else Inr errs
                          | _ \<Rightarrow> Inr errs)))"

text \<open>Status validation (lines 30 to 33).\<close>

definition statusValidation :: "jsval \<Rightarrow> string list \<Rightarrow> js_error + string list" where
  "statusValidation bugData errs =
     (case getField bugData ''status'' of
        Inl e \<Rightarrow> Inl e
      | Inr status \<Rightarrow>
          if status \<noteq> JUndefined \<and> \<not> arrayIncludes validStatuses status
          then Inr (push errs ''Status must be one of: open, in-progress, resolved, closed'')
          else Inr errs)"

text \<open>Priority validation (lines 36 to 39).\<close>

definition priorityValidation :: "jsval \<Rightarrow> string list \<Rightarrow> js_error + string list" where
  "priorityValidation bugData errs =
     (case getField bugData ''priority'' of
        Inl e \<Rightarrow> Inl e
      | Inr priority \<Rightarrow>
          if truthy priority \<and> \<not> arrayIncludes validPriorities priority
          then Inr (push errs ''Priority must be one of: low, medium, high, critical'')
          else Inr errs)"

text \<open>Reporter validation (lines 42 to 46).\<close>

definition reporterValidation :: "jsval \<Rightarrow> string list \<Rightarrow> js_error + string list" where
  "reporterValidation bugData errs =
     (case getField bugData ''reporter'' of
        Inl e \<Rightarrow> Inl e
      | Inr reporter \<Rightarrow>
          if \<not> truthy reporter \<or> typeof reporter \<noteq> ''string''
          then Inr (push errs ''Reporter is required and must be a string'')
          else (case callTrim reporter of
                  Inl e \<Rightarrow> Inl e
                | Inr trimmed \<Rightarrow>
                    if length trimmed = 0 then Inr (push errs ''Reporter cannot be empty'')
                    else Inr errs))"

text \<open>Assignee validation (lines 49 to 51).\<close>

definition assigneeValidation :: "jsval \<Rightarrow> string list \<Rightarrow> js_error + string list" where
  "assigneeValidation bugData errs =
     (case getField bugData ''assignee'' of
        Inl e \<Rightarrow> Inl e
      | Inr assignee \<Rightarrow>
          if truthy assignee \<and> typeof assignee \<noteq> ''string''
          then Inr (push errs ''Assignee must be a string'')
          else Inr errs)"

text \<open>Tags validation (lines 54 to 64). The callback of \<^verbatim>\<open>forEach\<close> gets the element and its index.\<close>

definition tagError :: "nat \<Rightarrow> string" where
  "tagError index = ''Tag at index '' @ decimal index @ '' must be a string''"

fun forEachTag :: "jsval list \<Rightarrow> nat \<Rightarrow> string list \<Rightarrow> string list" where
  "forEachTag [] index errs = errs"
| "forEachTag (tag # rest) index errs =
     forEachTag rest (Suc index)
       (if typeof tag \<noteq> ''string'' then push errs (tagError index) else errs)"

definition tagsValidation :: "jsval \<Rightarrow> string list \<Rightarrow> js_error + string list" where
  "tagsValidation bugData errs =
     (case getField bugData ''tags'' of
        Inl e \<Rightarrow> Inl e
      | Inr tags \<Rightarrow>
          if truthy tags
          then (if \<not> isArray tags then Inr (push errs ''Tags must be an array'')
                else (case tags of
                        JArray ts \<Rightarrow> Inr (forEachTag ts 0 errs)
                      | _ \<Rightarrow> Inl TypeError))
          else Inr errs)"

definition validateBugData :: "jsval \<Rightarrow> js_error + validation" where
  "validateBugData bugData =
     andThen (titleValidation bugData []) (\<lambda>errs.
     andThen (descriptionValidation bugData errs) (\<lambda>errs.
     andThen (statusValidation bugData errs) (\<lambda>errs.
     andThen (priorityValidation bugData errs) (\<lambda>errs.
     andThen (reporterValidation bugData errs) (\<lambda>errs.
     andThen (assigneeValidation bugData errs) (\<lambda>errs.
     andThen (tagsValidation bugData errs) (\<lambda>errs.
     Inr \<lparr>isValid = (length errs = 0), errors = errs\<rparr>)))))))"

section \<open>sanitizeBugData\<close>

text \<open>
  The spread \<^verbatim>\<open>{ ...bugData }\<close> copies the own enumerable properties of its operand: the
  properties of an object, the indexed elements of an array, the indexed code units of a
  string, and nothing for any other value (\<^verbatim>\<open>undefined\<close> and \<^verbatim>\<open>null\<close> included).
\<close>

fun spread :: "jsval \<Rightarrow> jsobj" where
  "spread (JObject ps) = ps"
| "spread (JArray xs) = zip (map decimal [0..<length xs]) xs"
| "spread (JString s) = zip (map decimal [0..<length s]) (map (\<lambda>c. JString [c]) s)"
| "spread v = []"

text \<open>
  The callback of the \<^verbatim>\<open>forEach\<close> over the four text fields (lines 81 to 85). An assignment
  to a property the object has keeps the property in its place.
\<close>

definition trimField :: "jsobj \<Rightarrow> string \<Rightarrow> js_error + jsobj" where
  "trimField sanitized field =
     (if truthy (property sanitized field) \<and> typeof (property sanitized field) = ''string''
      then andThen (callTrim (property sanitized field))
             (\<lambda>trimmed. Inr (AList.update field (JString trimmed) sanitized))
      else Inr sanitized)"

fun forEachField :: "string list \<Rightarrow> jsobj \<Rightarrow> js_error + jsobj" where
  "forEachField [] sanitized = Inr sanitized"
| "forEachField (field # rest) sanitized =
     andThen (trimField sanitized field) (forEachField rest)"

text \<open>\<^verbatim>\<open>.map(tag => tag.trim())\<close>: the first element that has no \<^verbatim>\<open>trim\<close> throws.\<close>

fun mapTrim :: "jsval list \<Rightarrow> js_error + string list" where
  "mapTrim [] = Inr []"
| "mapTrim (tag # rest) =
     andThen (callTrim tag) (\<lambda>trimmed.
     andThen (mapTrim rest) (\<lambda>others. Inr (trimmed # others)))"

text \<open>Sanitize tags array (lines 88 to 93).\<close>

definition sanitizeTags :: "jsobj \<Rightarrow> js_error + jsobj" where
  "sanitizeTags sanitized =
     (if truthy (property sanitized ''tags'') \<and> isArray (property sanitized ''tags'')
      then (case property sanitized ''tags'' of
              JArray ts \<Rightarrow>
                andThen (mapTrim (filter (\<lambda>tag. typeof tag = ''string'') ts)) (\<lambda>trimmed.
                Inr (AList.update ''tags''
                       (JArray (map JString (filter (\<lambda>tag. length tag > 0) trimmed)))
                       sanitized))
            | _ \<Rightarrow> Inl TypeError)
      else Inr sanitized)"

definition sanitizeBugData :: "jsval \<Rightarrow> js_error + jsobj" where
  "sanitizeBugData bugData =
     andThen (forEachField [''title'', ''description'', ''reporter'', ''assignee'']
                (spread bugData))
       sanitizeTags"

section \<open>isValidObjectId\<close>

text \<open>
  The regular expression \<^verbatim>\<open>/^[0-9a-fA-F]{24}$/\<close> has no flags: \<^verbatim>\<open>^\<close> is the start of
  the input and \<^verbatim>\<open>$\<close> its end. \<open>hexClass\<close> is the character class, given by its three
  ranges of code units; \<open>matchHex n\<close> matches \<^verbatim>\<open>[0-9a-fA-F]{n}$\<close> against the rest of the
  input.
\<close>

definition hexClass :: "char \<Rightarrow> bool" where
  "hexClass c \<longleftrightarrow>
     (let n = (of_char c :: nat)
      in (48 \<le> n \<and> n \<le> 57) \<or> (97 \<le> n \<and> n \<le> 102) \<or> (65 \<le> n \<and> n \<le> 70))"

fun matchHex :: "nat \<Rightarrow> string \<Rightarrow> bool" where
  "matchHex 0 s = (s = [])"
| "matchHex (Suc n) [] = False"
| "matchHex (Suc n) (c # s) = (hexClass c \<and> matchHex n s)"

definition isValidObjectId :: "string \<Rightarrow> bool" where
  "isValidObjectId oid = matchHex 24 oid"

section \<open>The routes of /api/bugs/:id\<close>

text \<open>
  The Record Store is the Mongoose model \<open>Bug\<close>, outside this repository's logic: a handler
  gets it as a function from the call it makes to the outcome, a document, \<^verbatim>\<open>null\<close> when
  no document has the id, or an exception. A handler returns its response and the calls it
  made to the Record Store, in order. The \<^verbatim>\<open>catch\<close> of each handler turns every exception
  of its \<^verbatim>\<open>try\<close> block into a 500 response.
\<close>

datatype dbCall =
    FindById string
  | FindByIdAndUpdate string jsobj
  | FindByIdAndDelete string

record response =
  statusCode :: nat
  json :: jsval

definition errorBody :: "string \<Rightarrow> jsval" where
  "errorBody msg = JObject [(''error'', JString msg)]"

definition internalServerError :: response where
  "internalServerError = \<lparr>statusCode = 500, json = errorBody ''Internal server error''\<rparr>"

definition getBug :: "(dbCall \<Rightarrow> js_error + jsval) \<Rightarrow> string \<Rightarrow> response \<times> dbCall list" where
  "getBug Bug ident =
     (if \<not> isValidObjectId ident
      then (\<lparr>statusCode = 400, json = errorBody ''Invalid bug ID format''\<rparr>, [])
      else (case Bug (FindById ident) of
              Inl e \<Rightarrow> (internalServerError, [FindById ident])
            | Inr bug \<Rightarrow>
                if \<not> truthy bug
                then (\<lparr>statusCode = 404, json = errorBody ''Bug not found''\<rparr>, [FindById ident])
                else (\<lparr>statusCode = 200, json = bug\<rparr>, [FindById ident])))"

text \<open>
  The initial \<^verbatim>\<open>{ isValid: true }\<close> of the update route has no error list; the list is
  read only when \<^verbatim>\<open>isValid\<close> is false. \<open>now\<close> is the value of \<^verbatim>\<open>new Date()\<close>.
\<close>

definition keys :: "jsobj \<Rightarrow> string list" where
  "keys ps = map fst ps"

definition putBug ::
  "(dbCall \<Rightarrow> js_error + jsval) \<Rightarrow> jsval \<Rightarrow> string \<Rightarrow> jsval \<Rightarrow> response \<times> dbCall list" where
  "putBug Bug now ident body =
     (if \<not> isValidObjectId ident
      then (\<lparr>statusCode = 400, json = errorBody ''Invalid bug ID format''\<rparr>, [])
      else (case sanitizeBugData body of
              Inl e \<Rightarrow> (internalServerError, [])
            | Inr sanitizedData \<Rightarrow>
               (case (if length (keys sanitizedData) > 1
                         \<or> \<not> truthy (property sanitizedData ''status'')
                      then validateBugData (JObject sanitizedData)
                      else Inr \<lparr>isValid = True, errors = []\<rparr>) of
                  Inl e \<Rightarrow> (internalServerError, [])
                | Inr validation \<Rightarrow>
                    if \<not> isValid validation
                    then (\<lparr>statusCode = 400,
                            json = JObject [(''error'', JString ''Validation failed''),
                                            (''details'', JArray (map JString (errors validation)))]\<rparr>,
                          [])
                    else (let call = FindByIdAndUpdate ident
                                       (AList.update ''updatedAt'' now sanitizedData)
                          in case Bug call of
                               Inl e \<Rightarrow> (internalServerError, [call])
                             | Inr updatedBug \<Rightarrow>
                                 if \<not> truthy updatedBug
                                 then (\<lparr>statusCode = 404, json = errorBody ''Bug not found''\<rparr>,
                                       [call])
                                 else (\<lparr>statusCode = 200, json = updatedBug\<rparr>, [call])))))"

definition deleteBug :: "(dbCall \<Rightarrow> js_error + jsval) \<Rightarrow> string \<Rightarrow> response \<times> dbCall list" where
  "deleteBug Bug ident =
     (if \<not> isValidObjectId ident
      then (\<lparr>statusCode = 400, json = errorBody ''Invalid bug ID format''\<rparr>, [])
      else (case Bug (FindByIdAndDelete ident) of
              Inl e \<Rightarrow> (internalServerError, [FindByIdAndDelete ident])
            | Inr deletedBug \<Rightarrow>
                if \<not> truthy deletedBug
                then (\<lparr>statusCode = 404, json = errorBody ''Bug not found''\<rparr>,
                      [FindByIdAndDelete ident])
                else (\<lparr>statusCode = 200,
                        json = JObject [(''message'', JString ''Bug deleted successfully'')]\<rparr>,
                      [FindByIdAndDelete ident])))"

section \<open>The filter of the bug list (BugList component)\<close>

text \<open>
  The records of the list have the shape the component declares: text \<open>title\<close>,
  \<open>description\<close>, \<open>status\<close>, \<open>priority\<close> and \<open>reporter\<close>, an optional text \<open>assignee\<close> and an
  optional array of text \<open>tags\<close>.
\<close>

record bug =
  bugId :: string
  title :: string
  description :: string
  status :: string
  priority :: string
  reporter :: string
  assignee :: "string option"
  tags :: "string list option"

record filterState =
  filterStatus :: string
  filterPriority :: string
  filterSearch :: string

record bugListState =
  bugs :: "bug list"
  currentFilter :: filterState
  filteredBugs :: "bug list"

text \<open>\<^verbatim>\<open>toLowerCase\<close> on code units below 256: A to Z, and the capital letters of Latin-1.\<close>

definition lowerChar :: "char \<Rightarrow> char" where
  "lowerChar c =
     (let n = (of_char c :: nat)
      in if (65 \<le> n \<and> n \<le> 90) \<or> (192 \<le> n \<and> n \<le> 222 \<and> n \<noteq> 215)
         then char_of (n + 32) else c)"

definition toLowerCase :: "string \<Rightarrow> string" where
  "toLowerCase s = map lowerChar s"

text \<open>\<^verbatim>\<open>s.includes(t)\<close> on strings: \<open>t\<close> starts at some position of \<open>s\<close>.\<close>

fun stringIncludes :: "string \<Rightarrow> string \<Rightarrow> bool" where
  "stringIncludes [] t = (t = [])"
| "stringIncludes (c # s) t = (prefix t (c # s) \<or> stringIncludes s t)"

definition searchMatch :: "string \<Rightarrow> bug \<Rightarrow> bool" where
  "searchMatch searchTerm b \<longleftrightarrow>
     stringIncludes (toLowerCase (title b)) searchTerm
     \<or> stringIncludes (toLowerCase (description b)) searchTerm
     \<or> stringIncludes (toLowerCase (reporter b)) searchTerm
     \<or> (case assignee b of
          None \<Rightarrow> False
        | Some a \<Rightarrow> a \<noteq> [] \<and> stringIncludes (toLowerCase a) searchTerm)
     \<or> (case tags b of
          None \<Rightarrow> False
        | Some ts \<Rightarrow> list_ex (\<lambda>tag. stringIncludes (toLowerCase tag) searchTerm) ts)"

definition applyFilter :: "filterState \<Rightarrow> bug list \<Rightarrow> bug list" where
  "applyFilter f bs =
     (let filtered = bs;
          filtered = (if filterStatus f \<noteq> []
                      then filter (\<lambda>b. status b = filterStatus f) filtered else filtered);
          filtered = (if filterPriority f \<noteq> []
                      then filter (\<lambda>b. priority b = filterPriority f) filtered else filtered);
          filtered = (if filterSearch f \<noteq> []
                      then filter (searchMatch (toLowerCase (filterSearch f))) filtered
                      else filtered)
      in filtered)"

definition filterEffect :: "bugListState \<Rightarrow> bugListState" where
  "filterEffect st = st\<lparr>filteredBugs := applyFilter (currentFilter st) (bugs st)\<rparr>"

section \<open>Definitions for stating the properties\<close>

text \<open>
  The messages of each rule, the place of a message in the fixed order, and what each rule
  reports for the value of its field; the facts below prove that the code reports just
  that.
\<close>

definition titleMessages :: "string list" where
  "titleMessages =
     [''Title is required and must be a string'', ''Title cannot be empty'',
      ''Title cannot exceed 100 characters'']"

definition descriptionMessages :: "string list" where
  "descriptionMessages =
     [''Description is required and must be a string'', ''Description cannot be empty'',
      ''Description cannot exceed 1000 characters'']"

definition reporterMessages :: "string list" where
  "reporterMessages =
     [''Reporter is required and must be a string'', ''Reporter cannot be empty'']"

definition errorSection :: "string \<Rightarrow> nat" where
  "errorSection e =
     (if e \<in> set titleMessages then 0
      else if e \<in> set descriptionMessages then 1
      else if e = ''Status must be one of: open, in-progress, resolved, closed'' then 2
      else if e = ''Priority must be one of: low, medium, high, critical'' then 3
      else if e \<in> set reporterMessages then 4
      else if e = ''Assignee must be a string'' then 5
      else if e = ''Tags must be an array'' \<or> take 13 e = ''Tag at index '' then 6
      else 7)"

definition nonStringIndices :: "jsval list \<Rightarrow> nat list" where
  "nonStringIndices ts = filter (\<lambda>i. typeof (ts ! i) \<noteq> ''string'') [0..<length ts]"

fun titleErrors :: "jsval \<Rightarrow> string list" where
  "titleErrors (JString s) =
     (if s = [] then [''Title is required and must be a string'']
      else if trim s = [] then [''Title cannot be empty'']
      else if length s > 100 then [''Title cannot exceed 100 characters'']
      else [])"
| "titleErrors v = [''Title is required and must be a string'']"

fun descriptionErrors :: "jsval \<Rightarrow> string list" where
  "descriptionErrors (JString s) =
     (if s = [] then [''Description is required and must be a string'']
      else if trim s = [] then [''Description cannot be empty'']
      else if length s > 1000 then [''Description cannot exceed 1000 characters'']
      else [])"
| "descriptionErrors v = [''Description is required and must be a string'']"

definition statusErrors :: "jsval \<Rightarrow> string list" where
  "statusErrors v =
     (if v \<noteq> JUndefined \<and> \<not> arrayIncludes validStatuses v
      then [''Status must be one of: open, in-progress, resolved, closed''] else [])"

definition priorityErrors :: "jsval \<Rightarrow> string list" where
  "priorityErrors v =
     (if truthy v \<and> \<not> arrayIncludes validPriorities v
      then [''Priority must be one of: low, medium, high, critical''] else [])"

fun reporterErrors :: "jsval \<Rightarrow> string list" where
  "reporterErrors (JString s) =
     (if s = [] then [''Reporter is required and must be a string'']
      else if trim s = [] then [''Reporter cannot be empty'']
      else [])"
| "reporterErrors v = [''Reporter is required and must be a string'']"

definition assigneeErrors :: "jsval \<Rightarrow> string list" where
  "assigneeErrors v =
     (if truthy v \<and> typeof v \<noteq> ''string'' then [''Assignee must be a string''] else [])"

fun tagsErrors :: "jsval \<Rightarrow> string list" where
  "tagsErrors (JArray ts) = map tagError (nonStringIndices ts)"
| "tagsErrors v = (if truthy v then [''Tags must be an array''] else [])"

text \<open>
  What sanitization leaves of a value: a text value trimmed, an array of tags with the
  elements that are not text dropped, the others trimmed and the empty ones dropped.
  \<open>trimUpdate\<close>, \<open>tagsUpdate\<close> and \<open>sanitized\<close> are closed forms of the steps of
  sanitizeBugData; the facts below prove them equal to the code.
\<close>

definition trimmedValue :: "jsval \<Rightarrow> jsval" where
  "trimmedValue v = (case v of JString s \<Rightarrow> JString (trim s) | _ \<Rightarrow> v)"

fun keptTags :: "jsval list \<Rightarrow> jsval list" where
  "keptTags [] = []"
| "keptTags (JString s # ts) =
     (if trim s = [] then keptTags ts else JString (trim s) # keptTags ts)"
| "keptTags (v # ts) = keptTags ts"

definition sanitizedTagsValue :: "jsval \<Rightarrow> jsval" where
  "sanitizedTagsValue v = (case v of JArray ts \<Rightarrow> JArray (keptTags ts) | _ \<Rightarrow> v)"

definition trimUpdate :: "string \<Rightarrow> jsobj \<Rightarrow> jsobj" where
  "trimUpdate f ps =
     (case property ps f of
        JString s \<Rightarrow> if s = [] then ps else AList.update f (JString (trim s)) ps
      | _ \<Rightarrow> ps)"

definition tagsUpdate :: "jsobj \<Rightarrow> jsobj" where
  "tagsUpdate ps =
     (case property ps ''tags'' of
        JArray ts \<Rightarrow> AList.update ''tags'' (JArray (keptTags ts)) ps
      | _ \<Rightarrow> ps)"

definition sanitized :: "jsobj \<Rightarrow> jsobj" where
  "sanitized ps =
     tagsUpdate (trimUpdate ''assignee'' (trimUpdate ''reporter''
       (trimUpdate ''description'' (trimUpdate ''title'' ps))))"

text \<open>A bug with a blank title, no description, no reporter and two tags that are not text.\<close>
definition exampleBug :: jsobj where
  "exampleBug =
     [(''title'', JString ''  ''),
      (''tags'', JArray [JString ''a'', JNumber 1, JNull])]"

text \<open>A bug whose title is the empty string; description and reporter are valid.\<close>
definition emptyTitleBug :: jsobj where
  "emptyTitleBug =
     [(''title'', JString ''''), (''description'', JString ''d''), (''reporter'', JString ''r'')]"

text \<open>A bug whose title has 101 code units; description and reporter are valid.\<close>
definition longTitleBug :: jsobj where
  "longTitleBug =
     [(''title'', JString (replicate 101 CHR ''a'')), (''description'', JString ''d''),
      (''reporter'', JString ''r'')]"

text \<open>A bug with a status that is not legal and an empty priority.\<close>
definition invalidStatusBug :: jsobj where
  "invalidStatusBug =
     [(''title'', JString ''Test Bug''), (''description'', JString ''d''),
      (''status'', JString ''invalid-status''), (''priority'', JString ''''),
      (''reporter'', JString ''John Doe'')]"

text \<open>A bug whose three required fields are white space only.\<close>
definition blankBug :: jsval where
  "blankBug =
     JObject [(''title'', JString ''   ''), (''description'', JString '' ''),
              (''reporter'', JString [CHR 0x09])]"

text \<open>The tags of the example of the specification.\<close>
definition tagsExample :: jsobj where
  "tagsExample =
     [(''tags'', JArray [JString ''  tag1  '', JString '''', JString ''  tag2  '', JNumber 123])]"

text \<open>A bug with a padded title, a severity field the module does not know, and padded tags.\<close>
definition paddedBug :: jsobj where
  "paddedBug =
     [(''title'', JString '' a ''), (''severity'', JString '' s ''),
      (''assignee'', JNumber 7), (''tags'', JArray [JString '' x '', JNumber 1])]"

text \<open>A Record Store that holds no document: every call finds nothing.\<close>
definition emptyStore :: "dbCall \<Rightarrow> js_error + jsval" where
  "emptyStore call = Inr JNull"

text \<open>The body of a status update, and one whose status is the empty string.\<close>
definition statusOnly :: jsval where
  "statusOnly = JObject [(''status'', JString ''resolved'')]"

definition emptyStatusOnly :: jsval where
  "emptyStatusOnly = JObject [(''status'', JString '''')]"

definition validationFailed :: "string list \<Rightarrow> response" where
  "validationFailed details =
     \<lparr>statusCode = 400,
      json = JObject [(''error'', JString ''Validation failed''),
                      (''details'', JArray (map JString details))]\<rparr>"

text \<open>
  The filter as the specification words it. A search term hits a record when its lower-case
  form is a substring of the lower-case title, description, reporter, assignee if there is
  one, or of some tag. A record meets the criteria when it meets each criterion that is not
  empty.
\<close>
definition searchHit :: "string \<Rightarrow> bug \<Rightarrow> bool" where
  "searchHit q b \<longleftrightarrow>
     sublist (toLowerCase q) (toLowerCase (title b))
     \<or> sublist (toLowerCase q) (toLowerCase (description b))
     \<or> sublist (toLowerCase q) (toLowerCase (reporter b))
     \<or> (case assignee b of None \<Rightarrow> False
         | Some a \<Rightarrow> sublist (toLowerCase q) (toLowerCase a))
     \<or> (case tags b of None \<Rightarrow> False
         | Some ts \<Rightarrow> list_ex (\<lambda>t. sublist (toLowerCase q) (toLowerCase t)) ts)"

definition meetsCriteria :: "filterState \<Rightarrow> bug \<Rightarrow> bool" where
  "meetsCriteria f b \<longleftrightarrow>
     (filterStatus f = [] \<or> status b = filterStatus f)
     \<and> (filterPriority f = [] \<or> priority b = filterPriority f)
     \<and> (filterSearch f = [] \<or> searchHit (filterSearch f) b)"

text \<open>The three records of the integration test of the list.\<close>
definition frontendBug :: bug where
  "frontendBug =
     \<lparr>bugId = ''1'', title = ''Frontend Bug'', description = ''UI issue'', status = ''open'',
      priority = ''high'', reporter = ''Alice'', assignee = None,
      tags = Some [''frontend'', ''ui'']\<rparr>"

definition backendBug :: bug where
  "backendBug =
     \<lparr>bugId = ''2'', title = ''Backend Bug'', description = ''API error'',
      status = ''resolved'', priority = ''medium'', reporter = ''Bob'', assignee = None,
      tags = Some [''backend'', ''api'']\<rparr>"

definition databaseBug :: bug where
  "databaseBug =
     \<lparr>bugId = ''3'', title = ''Database Bug'', description = ''Connection issue'',
      status = ''open'', priority = ''critical'', reporter = ''Charlie'', assignee = None,
      tags = Some [''database'']\<rparr>"

definition mockBugs :: "bug list" where
  "mockBugs = [frontendBug, backendBug, databaseBug]"

section \<open>Facts about validateBugData\<close>

lemma typeof_string_iff: "typeof v = ''string'' \<longleftrightarrow> (\<exists>s. v = JString s)"
  by (cases v) simp_all

lemma titleValidation_object:
  "titleValidation (JObject ps) errs = Inr (errs @ titleErrors (property ps ''title''))"
  by (cases "property ps ''title''") (simp_all add: titleValidation_def push_def)

lemma descriptionValidation_object:
  "descriptionValidation (JObject ps) errs =
     Inr (errs @ descriptionErrors (property ps ''description''))"
  by (cases "property ps ''description''") (simp_all add: descriptionValidation_def push_def)

lemma statusValidation_object:
  "statusValidation (JObject ps) errs = Inr (errs @ statusErrors (property ps ''status''))"
  by (simp add: statusValidation_def statusErrors_def push_def)

lemma priorityValidation_object:
  "priorityValidation (JObject ps) errs = Inr (errs @ priorityErrors (property ps ''priority''))"
  by (simp add: priorityValidation_def priorityErrors_def push_def)

lemma reporterValidation_object:
  "reporterValidation (JObject ps) errs = Inr (errs @ reporterErrors (property ps ''reporter''))"
  by (cases "property ps ''reporter''") (simp_all add: reporterValidation_def push_def)

lemma assigneeValidation_object:
  "assigneeValidation (JObject ps) errs = Inr (errs @ assigneeErrors (property ps ''assignee''))"
  by (simp add: assigneeValidation_def assigneeErrors_def push_def)

lemma nonStringIndices_Nil: "nonStringIndices [] = []"
  by (simp add: nonStringIndices_def)

lemma nonStringIndices_Cons:
  "nonStringIndices (t # ts) =
     (if typeof t \<noteq> ''string'' then [0] else []) @ map Suc (nonStringIndices ts)"
proof -
  have "[0..<length (t # ts)] = 0 # map Suc [0..<length ts]"
    by (simp add: upt_conv_Cons map_Suc_upt del: upt_Suc)
  then show ?thesis
    by (simp add: nonStringIndices_def filter_map comp_def)
qed

lemma forEachTag_eq:
  "forEachTag ts i errs = errs @ map (\<lambda>j. tagError (i + j)) (nonStringIndices ts)"
proof (induction ts arbitrary: i errs)
  case Nil
  show ?case by (simp add: nonStringIndices_Nil)
next
  case (Cons t ts)
  show ?case
    by (simp add: Cons.IH nonStringIndices_Cons push_def comp_def)
qed

lemma tagsValidation_object:
  "tagsValidation (JObject ps) errs = Inr (errs @ tagsErrors (property ps ''tags''))"
  by (cases "property ps ''tags''")
     (simp_all add: tagsValidation_def push_def forEachTag_eq)

lemma validateBugData_object:
  "validateBugData (JObject ps) =
     Inr \<lparr>isValid =
            (titleErrors (property ps ''title'') @ descriptionErrors (property ps ''description'')
             @ statusErrors (property ps ''status'') @ priorityErrors (property ps ''priority'')
             @ reporterErrors (property ps ''reporter'') @ assigneeErrors (property ps ''assignee'')
             @ tagsErrors (property ps ''tags'') = []),
          errors =
            titleErrors (property ps ''title'') @ descriptionErrors (property ps ''description'')
             @ statusErrors (property ps ''status'') @ priorityErrors (property ps ''priority'')
             @ reporterErrors (property ps ''reporter'') @ assigneeErrors (property ps ''assignee'')
             @ tagsErrors (property ps ''tags'')\<rparr>"
  unfolding validateBugData_def andThen_def
  by (simp only: titleValidation_object descriptionValidation_object statusValidation_object
      priorityValidation_object reporterValidation_object assigneeValidation_object
      tagsValidation_object sum.case append_Nil length_0_conv append_assoc)

lemma section_title: "e \<in> set (titleErrors v) \<Longrightarrow> errorSection e = 0"
  by (cases v) (auto simp: errorSection_def titleMessages_def split: if_splits)

lemma section_description: "e \<in> set (descriptionErrors v) \<Longrightarrow> errorSection e = 1"
  by (cases v) (auto simp: errorSection_def titleMessages_def descriptionMessages_def split: if_splits)

lemma section_status: "e \<in> set (statusErrors v) \<Longrightarrow> errorSection e = 2"
  by (auto simp: statusErrors_def errorSection_def titleMessages_def descriptionMessages_def split: if_splits)

lemma section_priority: "e \<in> set (priorityErrors v) \<Longrightarrow> errorSection e = 3"
  by (auto simp: priorityErrors_def errorSection_def titleMessages_def descriptionMessages_def split: if_splits)

lemma section_reporter: "e \<in> set (reporterErrors v) \<Longrightarrow> errorSection e = 4"
  by (cases v) (auto simp: errorSection_def titleMessages_def descriptionMessages_def reporterMessages_def split: if_splits)

lemma section_assignee: "e \<in> set (assigneeErrors v) \<Longrightarrow> errorSection e = 5"
  by (auto simp: assigneeErrors_def errorSection_def titleMessages_def descriptionMessages_def reporterMessages_def split: if_splits)

lemma section_tagError: "errorSection (tagError i) = 6"
  by (simp add: tagError_def errorSection_def titleMessages_def descriptionMessages_def reporterMessages_def)

lemma section_tags: "e \<in> set (tagsErrors v) \<Longrightarrow> errorSection e = 6"
  by (cases v) (auto simp: section_tagError, auto simp: errorSection_def titleMessages_def descriptionMessages_def reporterMessages_def split: if_splits)


section \<open>Facts about sanitizeBugData\<close>

lemma dropWhile_hd_id: "xs = [] \<or> \<not> P (hd xs) \<Longrightarrow> dropWhile P xs = xs"
  by (cases xs) auto

lemma trim_Nil: "trim [] = []"
  by (simp add: trim_def)

lemma trim_ends:
  "trim s = [] \<or> (\<not> isWhiteSpace (hd (trim s)) \<and> \<not> isWhiteSpace (last (trim s)))"
proof (cases "trim s = []")
  case True
  then show ?thesis by simp
next
  case False
  define t where "t = dropWhile isWhiteSpace s"
  define u where "u = dropWhile isWhiteSpace (rev t)"
  have tu: "trim s = rev u" by (simp add: trim_def t_def u_def)
  with False have u_ne: "u \<noteq> []" by simp
  then have hd_u: "\<not> isWhiteSpace (hd u)"
    unfolding u_def by (rule hd_dropWhile)
  have "rev t = takeWhile isWhiteSpace (rev t) @ u"
    by (simp add: u_def)
  then have "rev (rev t) = rev (takeWhile isWhiteSpace (rev t) @ u)" by simp
  then have t_split: "t = rev u @ rev (takeWhile isWhiteSpace (rev t))" by simp
  with u_ne have t_ne: "t \<noteq> []" by auto
  then have "\<not> isWhiteSpace (hd t)"
    unfolding t_def by (rule hd_dropWhile)
  moreover have "hd t = hd (rev u)"
    using t_split u_ne by (metis hd_append2 rev_is_Nil_conv)
  moreover have "last (rev u) = hd u"
    using u_ne by (simp add: last_rev)
  ultimately show ?thesis using hd_u tu by simp
qed

lemma trim_idem: "trim (trim s) = trim s"
proof (cases "trim s = []")
  case True
  then show ?thesis by (simp add: trim_Nil)
next
  case False
  with trim_ends [of s]
  have h: "\<not> isWhiteSpace (hd (trim s))" and l: "\<not> isWhiteSpace (last (trim s))" by auto
  have "dropWhile isWhiteSpace (trim s) = trim s"
    using h by (simp add: dropWhile_hd_id)
  moreover have "dropWhile isWhiteSpace (rev (trim s)) = rev (trim s)"
    using l False by (intro dropWhile_hd_id) (simp add: hd_rev)
  ultimately show ?thesis
    by (simp add: trim_def [of "trim s"])
qed

lemma trimField_eq: "trimField ps f = Inr (trimUpdate f ps)"
  by (cases "property ps f") (simp_all add: trimField_def trimUpdate_def andThen_def)

lemma map_of_trimUpdate:
  "map_of (trimUpdate f ps) k =
     (if k = f then map_option trimmedValue (map_of ps f) else map_of ps k)"
  by (auto simp: trimUpdate_def property_def trimmedValue_def update_conv' trim_Nil
      split: option.splits jsval.splits)

lemma map_of_Some_key: "map_of ps k = Some v \<Longrightarrow> k \<in> fst ` set ps"
  by (metis domI dom_map_of_conv_image_fst)

lemma keys_trimUpdate: "keys (trimUpdate f ps) = keys ps"
  by (auto simp: trimUpdate_def property_def keys_def update_keys
      dest: map_of_Some_key split: option.splits jsval.splits)

lemma mapTrim_filter:
  "\<exists>r. mapTrim (filter (\<lambda>tag. typeof tag = ''string'') ts) = Inr r \<and>
     map JString (filter (\<lambda>tag. length tag > 0) r) = keptTags ts"
proof (induction ts)
  case Nil
  show ?case by simp
next
  case (Cons t ts)
  then obtain r where r: "mapTrim (filter (\<lambda>tag. typeof tag = ''string'') ts) = Inr r"
    and k: "map JString (filter (\<lambda>tag. length tag > 0) r) = keptTags ts" by blast
  show ?case
    using r k by (cases t) (simp_all add: andThen_def)
qed

lemma sanitizeTags_eq: "sanitizeTags ps = Inr (tagsUpdate ps)"
proof (cases "property ps ''tags''")
  case (JArray ts)
  obtain r where "mapTrim (filter (\<lambda>tag. typeof tag = ''string'') ts) = Inr r"
    and "map JString (filter (\<lambda>tag. length tag > 0) r) = keptTags ts"
    using mapTrim_filter by blast
  with JArray show ?thesis
    by (simp add: sanitizeTags_def tagsUpdate_def andThen_def)
qed (simp_all add: sanitizeTags_def tagsUpdate_def)

lemma map_of_tagsUpdate:
  "map_of (tagsUpdate ps) k =
     (if k = ''tags'' then map_option sanitizedTagsValue (map_of ps ''tags'') else map_of ps k)"
  by (auto simp: tagsUpdate_def property_def sanitizedTagsValue_def update_conv'
      split: option.splits jsval.splits)

lemma keys_tagsUpdate: "keys (tagsUpdate ps) = keys ps"
  by (auto simp: tagsUpdate_def property_def keys_def update_keys
      dest: map_of_Some_key split: option.splits jsval.splits)

lemma sanitizeBugData_eq: "sanitizeBugData v = Inr (sanitized (spread v))"
  by (simp add: sanitizeBugData_def sanitized_def andThen_def trimField_eq sanitizeTags_eq)

lemma map_of_sanitized:
  "map_of (sanitized ps) k =
     (if k \<in> {''title'', ''description'', ''reporter'', ''assignee''}
      then map_option trimmedValue (map_of ps k)
      else if k = ''tags'' then map_option sanitizedTagsValue (map_of ps k)
      else map_of ps k)"
  by (simp add: sanitized_def map_of_tagsUpdate map_of_trimUpdate)

lemma keys_sanitized: "keys (sanitized ps) = keys ps"
  by (simp add: sanitized_def keys_tagsUpdate keys_trimUpdate)

section \<open>C1: the order of the errors\<close>

lemma sorted_wrt_nonStringIndices: "sorted_wrt (<) (nonStringIndices ts)"
  unfolding nonStringIndices_def by (rule sorted_wrt_filter) simp

lemma set_nonStringIndices:
  "set (nonStringIndices ts) = {i. i < length ts \<and> typeof (ts ! i) \<noteq> ''string''}"
  by (auto simp: nonStringIndices_def)

lemma sorted_const: "\<forall>e\<in>set xs. f e = (n::nat) \<Longrightarrow> sorted (map f xs)"
  by (induction xs) auto

lemma errors_sorted:
  assumes "\<forall>e\<in>set t. errorSection e = 0" "\<forall>e\<in>set d. errorSection e = 1"
    "\<forall>e\<in>set s. errorSection e = 2" "\<forall>e\<in>set p. errorSection e = 3"
    "\<forall>e\<in>set r. errorSection e = 4" "\<forall>e\<in>set a. errorSection e = 5"
    "\<forall>e\<in>set g. errorSection e = 6"
  shows "sorted (map errorSection (t @ d @ s @ p @ r @ a @ g))"
proof -
  have "sorted (map errorSection t)" "sorted (map errorSection d)"
    "sorted (map errorSection s)" "sorted (map errorSection p)"
    "sorted (map errorSection r)" "sorted (map errorSection a)"
    "sorted (map errorSection g)"
    using assms by (blast intro: sorted_const)+
  then show ?thesis
    using assms by (auto simp: sorted_append)
qed

lemma filter_section:
  assumes "\<forall>e\<in>set t. errorSection e = 0" "\<forall>e\<in>set d. errorSection e = 1"
    "\<forall>e\<in>set s. errorSection e = 2" "\<forall>e\<in>set p. errorSection e = 3"
    "\<forall>e\<in>set r. errorSection e = 4" "\<forall>e\<in>set a. errorSection e = 5"
    "\<forall>e\<in>set g. errorSection e = 6"
  shows "filter (\<lambda>e. errorSection e = 0) (t @ d @ s @ p @ r @ a @ g) = t"
    and "filter (\<lambda>e. errorSection e = 2) (t @ d @ s @ p @ r @ a @ g) = s"
    and "filter (\<lambda>e. errorSection e = 3) (t @ d @ s @ p @ r @ a @ g) = p"
    and "filter (\<lambda>e. errorSection e = 6) (t @ d @ s @ p @ r @ a @ g) = g"
proof -
  have k: "\<And>xs n m. \<forall>e\<in>set xs. errorSection e = n \<Longrightarrow>
      filter (\<lambda>e. errorSection e = m) xs = (if n = m then xs else [])"
    by (auto simp: filter_empty_conv filter_id_conv)
  show "filter (\<lambda>e. errorSection e = 0) (t @ d @ s @ p @ r @ a @ g) = t"
    using assms by (simp add: k)
  show "filter (\<lambda>e. errorSection e = 2) (t @ d @ s @ p @ r @ a @ g) = s"
    using assms by (simp add: k)
  show "filter (\<lambda>e. errorSection e = 3) (t @ d @ s @ p @ r @ a @ g) = p"
    using assms by (simp add: k)
  show "filter (\<lambda>e. errorSection e = 6) (t @ d @ s @ p @ r @ a @ g) = g"
    using assms by (simp add: k)
qed

lemmas sections =
  section_title section_description section_status section_priority section_reporter
  section_assignee section_tags

text \<open>
  C1. On every object validateBugData returns a result and throws nothing. The result is
  valid exactly when its error list is empty. The errors come in the fixed order of the
  rules, title (0), description (1), status (2), priority (3), reporter (4), assignee (5),
  tags (6), and every error is one of the messages of these rules. When \<open>tags\<close> is an
  array, the tag errors are the errors of the elements that are not text, one for each such
  index, in ascending order of the index.
\<close>
theorem validateBugData_fixed_order:
  "\<exists>r. validateBugData (JObject ps) = Inr r
     \<and> (isValid r \<longleftrightarrow> errors r = [])
     \<and> sorted (map errorSection (errors r))
     \<and> (\<forall>e\<in>set (errors r). errorSection e < 7)
     \<and> (\<forall>ts. property ps ''tags'' = JArray ts \<longrightarrow>
           filter (\<lambda>e. errorSection e = 6) (errors r) = map tagError (nonStringIndices ts)
           \<and> sorted_wrt (<) (nonStringIndices ts)
           \<and> set (nonStringIndices ts) = {i. i < length ts \<and> typeof (ts ! i) \<noteq> ''string''})"
proof -
  let ?t = "titleErrors (property ps ''title'')"
  let ?d = "descriptionErrors (property ps ''description'')"
  let ?s = "statusErrors (property ps ''status'')"
  let ?p = "priorityErrors (property ps ''priority'')"
  let ?r = "reporterErrors (property ps ''reporter'')"
  let ?a = "assigneeErrors (property ps ''assignee'')"
  let ?g = "tagsErrors (property ps ''tags'')"
  let ?es = "?t @ ?d @ ?s @ ?p @ ?r @ ?a @ ?g"
  have v: "validateBugData (JObject ps) = Inr \<lparr>isValid = (?es = []), errors = ?es\<rparr>"
    by (rule validateBugData_object)
  have srt: "sorted (map errorSection ?es)"
    by (rule errors_sorted) (simp_all add: sections)
  have known: "\<forall>e\<in>set ?es. errorSection e < 7"
    by (auto dest: sections)
  have tg: "filter (\<lambda>e. errorSection e = 6) ?es = ?g"
    by (rule filter_section) (simp_all add: sections)
  have tags: "\<forall>ts. property ps ''tags'' = JArray ts \<longrightarrow>
           filter (\<lambda>e. errorSection e = 6) ?es = map tagError (nonStringIndices ts)
           \<and> sorted_wrt (<) (nonStringIndices ts)
           \<and> set (nonStringIndices ts) = {i. i < length ts \<and> typeof (ts ! i) \<noteq> ''string''}"
  proof (intro allI impI conjI)
    fix ts
    assume "property ps ''tags'' = JArray ts"
    then have "?g = map tagError (nonStringIndices ts)" by simp
    with tg show "filter (\<lambda>e. errorSection e = 6) ?es = map tagError (nonStringIndices ts)"
      by (simp only:)
    show "sorted_wrt (<) (nonStringIndices ts)"
      by (rule sorted_wrt_nonStringIndices)
    show "set (nonStringIndices ts) = {i. i < length ts \<and> typeof (ts ! i) \<noteq> ''string''}"
      by (rule set_nonStringIndices)
  qed
  show ?thesis
  proof (intro exI conjI)
    show "validateBugData (JObject ps) = Inr \<lparr>isValid = (?es = []), errors = ?es\<rparr>"
      by (rule v)
    show "isValid \<lparr>isValid = (?es = []), errors = ?es\<rparr>
        \<longleftrightarrow> errors \<lparr>isValid = (?es = []), errors = ?es\<rparr> = []"
      by (simp only: validation.select_convs)
    show "sorted (map errorSection (errors \<lparr>isValid = (?es = []), errors = ?es\<rparr>))"
      using srt by (simp only: validation.select_convs)
    show "\<forall>e\<in>set (errors \<lparr>isValid = (?es = []), errors = ?es\<rparr>). errorSection e < 7"
      using known by (simp only: validation.select_convs)
    show "\<forall>ts. property ps ''tags'' = JArray ts \<longrightarrow>
           filter (\<lambda>e. errorSection e = 6) (errors \<lparr>isValid = (?es = []), errors = ?es\<rparr>)
             = map tagError (nonStringIndices ts)
           \<and> sorted_wrt (<) (nonStringIndices ts)
           \<and> set (nonStringIndices ts) = {i. i < length ts \<and> typeof (ts ! i) \<noteq> ''string''}"
      using tags by (simp only: validation.select_convs)
  qed
qed

text \<open>C1 on the example: title, description and reporter errors, then the tags 1 and 2.\<close>
theorem validateBugData_fixed_order_witness:
  "\<exists>r. validateBugData (JObject exampleBug) = Inr r
     \<and> \<not> isValid r \<and> errors r \<noteq> []
     \<and> sorted (map errorSection (errors r))
     \<and> filter (\<lambda>e. errorSection e = 6) (errors r) = [tagError 1, tagError 2]"
proof -
  have p: "property exampleBug ''tags'' = JArray [JString ''a'', JNumber 1, JNull]"
    by (simp add: exampleBug_def property_def)
  have n: "nonStringIndices [JString ''a'', JNumber 1, JNull] = [1, 2]"
    by (simp add: nonStringIndices_Cons nonStringIndices_Nil)
  have e: "titleErrors (property exampleBug ''title'') \<noteq> []"
    by (simp add: exampleBug_def property_def trim_def isWhiteSpace_def)
  from validateBugData_fixed_order [of exampleBug] obtain r where
    r: "validateBugData (JObject exampleBug) = Inr r" "isValid r \<longleftrightarrow> errors r = []"
      "sorted (map errorSection (errors r))"
      "\<forall>ts. property exampleBug ''tags'' = JArray ts \<longrightarrow>
           filter (\<lambda>e. errorSection e = 6) (errors r) = map tagError (nonStringIndices ts)"
    by blast
  from r(1) e have "errors r \<noteq> []"
    by (auto simp: validateBugData_object)
  with r p n show ?thesis by auto
qed

section \<open>C3: the title rules\<close>

lemma section_0_iff: "errorSection e = 0 \<longleftrightarrow> e \<in> set titleMessages"
  by (simp add: errorSection_def)

lemma titleErrors_in_output:
  "\<exists>r. validateBugData (JObject ps) = Inr r
     \<and> filter (\<lambda>e. e \<in> set titleMessages) (errors r) = titleErrors (property ps ''title'')"
proof -
  let ?t = "titleErrors (property ps ''title'')"
  let ?d = "descriptionErrors (property ps ''description'')"
  let ?s = "statusErrors (property ps ''status'')"
  let ?p = "priorityErrors (property ps ''priority'')"
  let ?r = "reporterErrors (property ps ''reporter'')"
  let ?a = "assigneeErrors (property ps ''assignee'')"
  let ?g = "tagsErrors (property ps ''tags'')"
  have "filter (\<lambda>e. errorSection e = 0) (?t @ ?d @ ?s @ ?p @ ?r @ ?a @ ?g) = ?t"
    by (rule filter_section) (simp_all add: sections)
  then show ?thesis
    by (simp add: validateBugData_object section_0_iff)
qed

text \<open>
  C3, amended. The title rules are a chain, so the title errors of the output are at most
  one. A title that is absent, not text, or the empty string gives exactly the
  required error and no other title error; a title that is not empty but empty after
  trimming gives exactly the empty-title error; any other title longer than 100 gives exactly
  the too-long error; any other title gives no title error.
\<close>
theorem validateBugData_title_rules:
  "\<exists>r. validateBugData (JObject ps) = Inr r
     \<and> length (filter (\<lambda>e. e \<in> set titleMessages) (errors r)) \<le> 1
     \<and> (property ps ''title'' = JUndefined \<or> typeof (property ps ''title'') \<noteq> ''string''
          \<or> property ps ''title'' = JString [] \<longrightarrow>
        filter (\<lambda>e. e \<in> set titleMessages) (errors r)
          = [''Title is required and must be a string''])
     \<and> (\<forall>s. property ps ''title'' = JString s \<and> s \<noteq> [] \<and> trim s = [] \<longrightarrow>
        filter (\<lambda>e. e \<in> set titleMessages) (errors r) = [''Title cannot be empty''])
     \<and> (\<forall>s. property ps ''title'' = JString s \<and> trim s \<noteq> [] \<and> length s > 100 \<longrightarrow>
        filter (\<lambda>e. e \<in> set titleMessages) (errors r)
          = [''Title cannot exceed 100 characters''])
     \<and> (\<forall>s. property ps ''title'' = JString s \<and> trim s \<noteq> [] \<and> length s \<le> 100 \<longrightarrow>
        filter (\<lambda>e. e \<in> set titleMessages) (errors r) = [])"
proof -
  obtain r where r: "validateBugData (JObject ps) = Inr r"
    and t: "filter (\<lambda>e. e \<in> set titleMessages) (errors r) = titleErrors (property ps ''title'')"
    using titleErrors_in_output by blast
  have "length (titleErrors (property ps ''title'')) \<le> 1"
    by (cases "property ps ''title''") simp_all
  moreover have "property ps ''title'' = JUndefined \<or> typeof (property ps ''title'') \<noteq> ''string''
          \<or> property ps ''title'' = JString [] \<longrightarrow>
        titleErrors (property ps ''title'') = [''Title is required and must be a string'']"
    by (cases "property ps ''title''") simp_all
  moreover have "\<forall>s. property ps ''title'' = JString s \<and> s \<noteq> [] \<and> trim s = [] \<longrightarrow>
        titleErrors (property ps ''title'') = [''Title cannot be empty'']"
    by simp
  moreover have "\<forall>s. property ps ''title'' = JString s \<and> trim s \<noteq> [] \<and> length s > 100 \<longrightarrow>
        titleErrors (property ps ''title'') = [''Title cannot exceed 100 characters'']"
    by (auto simp: trim_Nil)
  moreover have "\<forall>s. property ps ''title'' = JString s \<and> trim s \<noteq> [] \<and> length s \<le> 100 \<longrightarrow>
        titleErrors (property ps ''title'') = []"
    by (auto simp: trim_Nil)
  ultimately show ?thesis
    using r unfolding t [symmetric] by blast
qed

text \<open>C3 on a title of 101 letters with the other fields valid: the one error is the too-long error.\<close>
theorem validateBugData_title_rules_witness:
  "\<exists>r. validateBugData (JObject longTitleBug) = Inr r
     \<and> filter (\<lambda>e. e \<in> set titleMessages) (errors r) = [''Title cannot exceed 100 characters'']
     \<and> errors r = [''Title cannot exceed 100 characters'']"
proof -
  have p: "property longTitleBug ''title'' = JString (replicate 101 CHR ''a'')"
    by (simp add: longTitleBug_def property_def)
  have w: "\<not> isWhiteSpace CHR ''a''"
    by (simp add: isWhiteSpace_def)
  have tr: "trim (replicate 101 CHR ''a'') = replicate 101 CHR ''a''"
    by (simp add: trim_def w dropWhile_replicate)
  have ne: "trim (replicate 101 CHR ''a'') \<noteq> []"
    unfolding tr by simp
  have len: "length (replicate 101 CHR ''a'') > 100"
    by simp
  from validateBugData_title_rules [of longTitleBug] obtain r where
    r: "validateBugData (JObject longTitleBug) = Inr r"
    and l: "\<forall>s. property longTitleBug ''title'' = JString s \<and> trim s \<noteq> [] \<and> length s > 100 \<longrightarrow>
        filter (\<lambda>e. e \<in> set titleMessages) (errors r)
          = [''Title cannot exceed 100 characters'']"
    by blast
  from l p ne len have f: "filter (\<lambda>e. e \<in> set titleMessages) (errors r)
          = [''Title cannot exceed 100 characters'']"
    by blast
  have d: "trim ''d'' = ''d''" and rr: "trim ''r'' = ''r''"
    by (simp_all add: trim_def isWhiteSpace_def)
  have "validateBugData (JObject longTitleBug)
      = Inr \<lparr>isValid = False, errors = [''Title cannot exceed 100 characters'']\<rparr>"
    unfolding validateBugData_object
    by (simp add: longTitleBug_def property_def tr d rr statusErrors_def priorityErrors_def
        assigneeErrors_def)
  with r f show ?thesis by auto
qed

text \<open>
  C3 as stated fails on the empty string: the title is there, is text and is empty after
  trimming, and the error is the required error, not the empty-title error.
\<close>
theorem validateBugData_empty_title_counterexample:
  "property emptyTitleBug ''title'' = JString ''''
   \<and> typeof (JString '''') = ''string''
   \<and> trim '''' = ''''
   \<and> validateBugData (JObject emptyTitleBug)
       = Inr \<lparr>isValid = False, errors = [''Title is required and must be a string'']\<rparr>"
proof -
  have d: "trim ''d'' = ''d''" and rr: "trim ''r'' = ''r''"
    by (simp_all add: trim_def isWhiteSpace_def)
  show ?thesis
    unfolding validateBugData_object
    by (simp add: emptyTitleBug_def property_def trim_Nil d rr statusErrors_def
        priorityErrors_def assigneeErrors_def)
qed

section \<open>C5: status and priority\<close>

lemma status_priority_in_output:
  "\<exists>r. validateBugData (JObject ps) = Inr r
     \<and> filter (\<lambda>e. errorSection e = 2) (errors r) = statusErrors (property ps ''status'')
     \<and> filter (\<lambda>e. errorSection e = 3) (errors r) = priorityErrors (property ps ''priority'')"
proof -
  let ?t = "titleErrors (property ps ''title'')"
  let ?d = "descriptionErrors (property ps ''description'')"
  let ?s = "statusErrors (property ps ''status'')"
  let ?p = "priorityErrors (property ps ''priority'')"
  let ?r = "reporterErrors (property ps ''reporter'')"
  let ?a = "assigneeErrors (property ps ''assignee'')"
  let ?g = "tagsErrors (property ps ''tags'')"
  have "filter (\<lambda>e. errorSection e = 2) (?t @ ?d @ ?s @ ?p @ ?r @ ?a @ ?g) = ?s"
    by (rule filter_section) (simp_all add: sections)
  moreover have "filter (\<lambda>e. errorSection e = 3) (?t @ ?d @ ?s @ ?p @ ?r @ ?a @ ?g) = ?p"
    by (rule filter_section) (simp_all add: sections)
  ultimately show ?thesis
    by (simp add: validateBugData_object)
qed

text \<open>
  C5. A status that is there and is not one of the four legal values gives exactly one
  status error, the one that names the four values. A truthy priority that is not one of
  its four legal values gives exactly one priority error; a falsy priority, the empty
  string for one, gives none.
\<close>
theorem validateBugData_status_priority:
  "\<exists>r. validateBugData (JObject ps) = Inr r
     \<and> (property ps ''status'' \<noteq> JUndefined
          \<and> property ps ''status''
              \<notin> JString ` {''open'', ''in-progress'', ''resolved'', ''closed''} \<longrightarrow>
        filter (\<lambda>e. errorSection e = 2) (errors r)
          = [''Status must be one of: open, in-progress, resolved, closed''])
     \<and> (truthy (property ps ''priority'')
          \<and> property ps ''priority'' \<notin> JString ` {''low'', ''medium'', ''high'', ''critical''} \<longrightarrow>
        filter (\<lambda>e. errorSection e = 3) (errors r)
          = [''Priority must be one of: low, medium, high, critical''])
     \<and> (\<not> truthy (property ps ''priority'') \<longrightarrow>
        filter (\<lambda>e. errorSection e = 3) (errors r) = [])"
proof -
  obtain r where r: "validateBugData (JObject ps) = Inr r"
    and s: "filter (\<lambda>e. errorSection e = 2) (errors r) = statusErrors (property ps ''status'')"
    and p: "filter (\<lambda>e. errorSection e = 3) (errors r) = priorityErrors (property ps ''priority'')"
    using status_priority_in_output by blast
  have inc: "\<And>v xs. arrayIncludes xs v \<longleftrightarrow> v \<in> JString ` set xs"
    by (case_tac v) auto
  have a: "property ps ''status'' \<noteq> JUndefined
          \<and> property ps ''status''
              \<notin> JString ` {''open'', ''in-progress'', ''resolved'', ''closed''} \<longrightarrow>
        filter (\<lambda>e. errorSection e = 2) (errors r)
          = [''Status must be one of: open, in-progress, resolved, closed'']"
    unfolding s by (simp add: statusErrors_def inc validStatuses_def)
  have b: "truthy (property ps ''priority'')
          \<and> property ps ''priority'' \<notin> JString ` {''low'', ''medium'', ''high'', ''critical''} \<longrightarrow>
        filter (\<lambda>e. errorSection e = 3) (errors r)
          = [''Priority must be one of: low, medium, high, critical'']"
    unfolding p by (simp add: priorityErrors_def inc validPriorities_def)
  have c: "\<not> truthy (property ps ''priority'') \<longrightarrow>
        filter (\<lambda>e. errorSection e = 3) (errors r) = []"
    unfolding p by (simp add: priorityErrors_def)
  from r a b c show ?thesis
    by (intro exI [of _ r] conjI)
qed

text \<open>C5 on the status \<open>invalid-status\<close> with an empty priority: one status error, no priority error.\<close>
theorem validateBugData_status_priority_witness:
  "\<exists>r. validateBugData (JObject invalidStatusBug) = Inr r
     \<and> filter (\<lambda>e. errorSection e = 2) (errors r)
          = [''Status must be one of: open, in-progress, resolved, closed'']
     \<and> filter (\<lambda>e. errorSection e = 3) (errors r) = []"
proof -
  have s: "property invalidStatusBug ''status'' = JString ''invalid-status''"
    and p: "property invalidStatusBug ''priority'' = JString ''''"
    by (simp_all add: invalidStatusBug_def property_def)
  have s1: "property invalidStatusBug ''status'' \<noteq> JUndefined
          \<and> property invalidStatusBug ''status''
              \<notin> JString ` {''open'', ''in-progress'', ''resolved'', ''closed''}"
    unfolding s by simp
  have p1: "\<not> truthy (property invalidStatusBug ''priority'')"
    unfolding p by simp
  from validateBugData_status_priority [of invalidStatusBug] obtain r where
    r: "validateBugData (JObject invalidStatusBug) = Inr r"
    and a: "property invalidStatusBug ''status'' \<noteq> JUndefined
          \<and> property invalidStatusBug ''status''
              \<notin> JString ` {''open'', ''in-progress'', ''resolved'', ''closed''} \<longrightarrow>
        filter (\<lambda>e. errorSection e = 2) (errors r)
          = [''Status must be one of: open, in-progress, resolved, closed'']"
    and c: "\<not> truthy (property invalidStatusBug ''priority'') \<longrightarrow>
        filter (\<lambda>e. errorSection e = 3) (errors r) = []"
    by (elim exE conjE)
  from a s1 have a': "filter (\<lambda>e. errorSection e = 2) (errors r)
          = [''Status must be one of: open, in-progress, resolved, closed'']" ..
  from c p1 have c': "filter (\<lambda>e. errorSection e = 3) (errors r) = []" ..
  from r a' c' show ?thesis
    by (intro exI [of _ r] conjI)
qed

section \<open>C10: no empty-after-trim error on sanitized input\<close>

lemma property_sanitized_text:
  "k \<in> {''title'', ''description'', ''reporter'', ''assignee''} \<Longrightarrow>
     property (sanitized ps) k = trimmedValue (property ps k)"
  by (auto simp: property_def map_of_sanitized trimmedValue_def split: option.splits)

lemma titleErrors_trimmed: "''Title cannot be empty'' \<notin> set (titleErrors (trimmedValue v))"
  by (cases v) (simp_all add: trimmedValue_def trim_idem)

lemma descriptionErrors_trimmed:
  "''Description cannot be empty'' \<notin> set (descriptionErrors (trimmedValue v))"
  by (cases v) (simp_all add: trimmedValue_def trim_idem)

lemma reporterErrors_trimmed:
  "''Reporter cannot be empty'' \<notin> set (reporterErrors (trimmedValue v))"
  by (cases v) (simp_all add: trimmedValue_def trim_idem)

lemma section_empty_messages:
  "errorSection ''Title cannot be empty'' = 0"
  "errorSection ''Description cannot be empty'' = 1"
  "errorSection ''Reporter cannot be empty'' = 4"
  by (simp_all add: errorSection_def titleMessages_def descriptionMessages_def
      reporterMessages_def)

lemma not_in_other_section:
  "errorSection e = n \<Longrightarrow> \<forall>x\<in>set xs. errorSection x \<noteq> n \<Longrightarrow> e \<notin> set xs"
  by auto

text \<open>
  C10. Sanitization never throws, and validating its result never reports that the title,
  the description or the reporter is empty after trimming.
\<close>
theorem validate_sanitized_no_empty_error:
  "\<exists>sd r. sanitizeBugData x = Inr sd \<and> validateBugData (JObject sd) = Inr r
     \<and> ''Title cannot be empty'' \<notin> set (errors r)
     \<and> ''Description cannot be empty'' \<notin> set (errors r)
     \<and> ''Reporter cannot be empty'' \<notin> set (errors r)"
proof -
  let ?sd = "sanitized (spread x)"
  let ?t = "titleErrors (property ?sd ''title'')"
  let ?d = "descriptionErrors (property ?sd ''description'')"
  let ?s = "statusErrors (property ?sd ''status'')"
  let ?p = "priorityErrors (property ?sd ''priority'')"
  let ?r = "reporterErrors (property ?sd ''reporter'')"
  let ?a = "assigneeErrors (property ?sd ''assignee'')"
  let ?g = "tagsErrors (property ?sd ''tags'')"
  note others = not_in_other_section [OF section_empty_messages(1)]
    not_in_other_section [OF section_empty_messages(2)]
    not_in_other_section [OF section_empty_messages(3)]
  have t: "''Title cannot be empty'' \<notin> set ?t"
    by (simp add: property_sanitized_text titleErrors_trimmed)
  have d: "''Description cannot be empty'' \<notin> set ?d"
    by (simp add: property_sanitized_text descriptionErrors_trimmed)
  have r: "''Reporter cannot be empty'' \<notin> set ?r"
    by (simp add: property_sanitized_text reporterErrors_trimmed)
  have t': "''Title cannot be empty'' \<notin> set (?d @ ?s @ ?p @ ?r @ ?a @ ?g)"
    by (rule others) (auto dest: sections)
  have d': "''Description cannot be empty'' \<notin> set (?t @ ?s @ ?p @ ?r @ ?a @ ?g)"
    by (rule others) (auto dest: sections)
  have r': "''Reporter cannot be empty'' \<notin> set (?t @ ?d @ ?s @ ?p @ ?a @ ?g)"
    by (rule others) (auto dest: sections)
  show ?thesis
    unfolding sanitizeBugData_eq validateBugData_object
    using t d r t' d' r' by auto
qed

text \<open>
  C10 on a bug whose title, description and reporter are white space only: sanitization
  makes them empty strings, and the errors are the three required errors.
\<close>
theorem validate_sanitized_no_empty_error_witness:
  "\<exists>sd r. sanitizeBugData blankBug = Inr sd \<and> validateBugData (JObject sd) = Inr r
     \<and> sd = [(''title'', JString ''''), (''description'', JString ''''),
             (''reporter'', JString '''')]
     \<and> errors r = [''Title is required and must be a string'',
                   ''Description is required and must be a string'',
                   ''Reporter is required and must be a string'']
     \<and> ''Title cannot be empty'' \<notin> set (errors r)
     \<and> ''Description cannot be empty'' \<notin> set (errors r)
     \<and> ''Reporter cannot be empty'' \<notin> set (errors r)"
proof -
  from validate_sanitized_no_empty_error [of blankBug] obtain sd r where
    sd: "sanitizeBugData blankBug = Inr sd"
    and r: "validateBugData (JObject sd) = Inr r"
    and t: "''Title cannot be empty'' \<notin> set (errors r)"
    and d: "''Description cannot be empty'' \<notin> set (errors r)"
    and p: "''Reporter cannot be empty'' \<notin> set (errors r)"
    by (elim exE conjE)
  have w: "trim ''   '' = ''''" "trim '' '' = ''''" "trim [CHR 0x09] = ''''"
    by (simp_all add: trim_def isWhiteSpace_def)
  have "sanitized (spread blankBug)
      = [(''title'', JString ''''), (''description'', JString ''''),
         (''reporter'', JString '''')]"
    by (simp add: blankBug_def sanitized_def trimUpdate_def tagsUpdate_def property_def w)
  with sd have s: "sd = [(''title'', JString ''''), (''description'', JString ''''),
             (''reporter'', JString '''')]"
    by (simp add: sanitizeBugData_eq)
  from r have e: "errors r = [''Title is required and must be a string'',
                   ''Description is required and must be a string'',
                   ''Reporter is required and must be a string'']"
    unfolding s validateBugData_object
    by (auto simp: property_def statusErrors_def priorityErrors_def assigneeErrors_def)
  from sd r s e t d p show ?thesis
    by - (rule exI [of _ sd], rule exI [of _ r], intro conjI, assumption+)
qed

section \<open>C2: the tags after sanitization\<close>

text \<open>
  C2. When \<open>tags\<close> is an array, sanitizeBugData returns an object whose \<open>tags\<close> are the
  elements of the input that are text, trimmed, without those that are empty after trimming,
  in the order of the input.
\<close>
theorem sanitizeBugData_tags:
  "property ps ''tags'' = JArray ts \<Longrightarrow>
     \<exists>sd. sanitizeBugData (JObject ps) = Inr sd \<and> property sd ''tags'' = JArray (keptTags ts)"
  by (auto simp: sanitizeBugData_eq property_def map_of_sanitized sanitizedTagsValue_def
      split: option.splits)

text \<open>C2 on the example of the specification.\<close>
theorem sanitizeBugData_tags_witness:
  "\<exists>sd. sanitizeBugData (JObject tagsExample) = Inr sd
     \<and> property sd ''tags'' = JArray [JString ''tag1'', JString ''tag2'']"
proof -
  have p: "property tagsExample ''tags''
      = JArray [JString ''  tag1  '', JString '''', JString ''  tag2  '', JNumber 123]"
    by (simp add: tagsExample_def property_def)
  have t: "trim ''  tag1  '' = ''tag1''" "trim '''' = ''''" "trim ''  tag2  '' = ''tag2''"
    by (simp_all add: trim_def isWhiteSpace_def)
  have k: "keptTags [JString ''  tag1  '', JString '''', JString ''  tag2  '', JNumber 123]
      = [JString ''tag1'', JString ''tag2'']"
    by (simp add: t)
  from sanitizeBugData_tags [OF p] show ?thesis
    unfolding k .
qed

section \<open>C7: what sanitization changes\<close>

text \<open>
  C7, amended. On every object sanitizeBugData returns an object with the same keys in the
  same order. Each of \<open>title\<close>, \<open>description\<close>, \<open>reporter\<close> and \<open>assignee\<close> that is text is
  replaced by its trimmed form and is left as it is otherwise. Every field other than these
  four and \<open>tags\<close> is unchanged, and so is \<open>tags\<close> when it is not an array. On every value
  \<open>x\<close>, an object or not, sanitizeBugData returns and throws nothing.
\<close>
theorem sanitizeBugData_frame:
  "\<exists>sd. sanitizeBugData (JObject ps) = Inr sd
     \<and> keys sd = keys ps
     \<and> (\<forall>k\<in>{''title'', ''description'', ''reporter'', ''assignee''}.
          (\<forall>s. map_of ps k = Some (JString s) \<longrightarrow> map_of sd k = Some (JString (trim s)))
          \<and> ((\<forall>s. map_of ps k \<noteq> Some (JString s)) \<longrightarrow> map_of sd k = map_of ps k))
     \<and> (\<forall>k. k \<notin> {''title'', ''description'', ''reporter'', ''assignee'', ''tags''} \<longrightarrow>
          map_of sd k = map_of ps k)
     \<and> (\<not> isArray (property ps ''tags'') \<longrightarrow> map_of sd ''tags'' = map_of ps ''tags'')
     \<and> (\<exists>out. sanitizeBugData x = Inr out)"
proof (intro exI conjI)
  show "sanitizeBugData (JObject ps) = Inr (sanitized ps)"
    by (simp add: sanitizeBugData_eq)
  show "keys (sanitized ps) = keys ps"
    by (rule keys_sanitized)
  show "\<forall>k\<in>{''title'', ''description'', ''reporter'', ''assignee''}.
          (\<forall>s. map_of ps k = Some (JString s) \<longrightarrow> map_of (sanitized ps) k = Some (JString (trim s)))
          \<and> ((\<forall>s. map_of ps k \<noteq> Some (JString s)) \<longrightarrow> map_of (sanitized ps) k = map_of ps k)"
  proof (intro ballI conjI allI impI)
    fix k s
    assume "k \<in> {''title'', ''description'', ''reporter'', ''assignee''}"
      and "map_of ps k = Some (JString s)"
    then show "map_of (sanitized ps) k = Some (JString (trim s))"
      by (simp add: map_of_sanitized trimmedValue_def)
  next
    fix k
    assume k: "k \<in> {''title'', ''description'', ''reporter'', ''assignee''}"
      and n: "\<forall>s. map_of ps k \<noteq> Some (JString s)"
    have "map_option trimmedValue (map_of ps k) = map_of ps k"
    proof (cases "map_of ps k")
      case None
      then show ?thesis by simp
    next
      case (Some v)
      with n have "\<forall>s. v \<noteq> JString s" by simp
      then have "trimmedValue v = v"
        by (cases v) (simp_all add: trimmedValue_def)
      with Some show ?thesis by simp
    qed
    with k show "map_of (sanitized ps) k = map_of ps k"
      by (simp only: map_of_sanitized if_True)
  qed
  show "\<forall>k. k \<notin> {''title'', ''description'', ''reporter'', ''assignee'', ''tags''} \<longrightarrow>
          map_of (sanitized ps) k = map_of ps k"
    by (simp add: map_of_sanitized)
  show "\<not> isArray (property ps ''tags'') \<longrightarrow> map_of (sanitized ps) ''tags'' = map_of ps ''tags''"
  proof
    assume a: "\<not> isArray (property ps ''tags'')"
    have "map_option sanitizedTagsValue (map_of ps ''tags'') = map_of ps ''tags''"
    proof (cases "map_of ps ''tags''")
      case None
      then show ?thesis by simp
    next
      case (Some v)
      with a have "\<not> isArray v" by (simp add: property_def)
      then have "sanitizedTagsValue v = v"
        by (cases v) (simp_all add: sanitizedTagsValue_def)
      with Some show ?thesis by simp
    qed
    then show "map_of (sanitized ps) ''tags'' = map_of ps ''tags''"
      by (simp add: map_of_sanitized)
  qed
  show "sanitizeBugData x = Inr (sanitized (spread x))"
    by (rule sanitizeBugData_eq)
qed

text \<open>
  C7 on the padded bug: the title is trimmed, the assignee, which is a number, and the
  unknown field stay; \<^verbatim>\<open>null\<close> is sanitized to the empty object.
\<close>
theorem sanitizeBugData_frame_witness:
  "\<exists>sd. sanitizeBugData (JObject paddedBug) = Inr sd
     \<and> keys sd = [''title'', ''severity'', ''assignee'', ''tags'']
     \<and> map_of sd ''title'' = Some (JString ''a'')
     \<and> map_of sd ''assignee'' = Some (JNumber 7)
     \<and> map_of sd ''severity'' = Some (JString '' s '')
     \<and> (\<exists>out. sanitizeBugData JNull = Inr out)"
proof -
  from sanitizeBugData_frame [of paddedBug JNull] obtain sd out where
    sd: "sanitizeBugData (JObject paddedBug) = Inr sd"
    and ks: "keys sd = keys paddedBug"
    and four: "\<forall>k\<in>{''title'', ''description'', ''reporter'', ''assignee''}.
          (\<forall>s. map_of paddedBug k = Some (JString s) \<longrightarrow> map_of sd k = Some (JString (trim s)))
          \<and> ((\<forall>s. map_of paddedBug k \<noteq> Some (JString s)) \<longrightarrow> map_of sd k = map_of paddedBug k)"
    and other: "\<forall>k. k \<notin> {''title'', ''description'', ''reporter'', ''assignee'', ''tags''} \<longrightarrow>
          map_of sd k = map_of paddedBug k"
    and "\<not> isArray (property paddedBug ''tags'') \<longrightarrow>
          map_of sd ''tags'' = map_of paddedBug ''tags''"
    and out: "sanitizeBugData JNull = Inr out"
    by (elim exE conjE)
  from out have total: "\<exists>out. sanitizeBugData JNull = Inr out" ..
  have t: "trim '' a '' = ''a''"
    by (simp add: trim_def isWhiteSpace_def)
  have "map_of paddedBug ''title'' = Some (JString '' a '')"
    by (simp add: paddedBug_def)
  with four have title: "map_of sd ''title'' = Some (JString ''a'')"
    by (simp add: t)
  have "map_of paddedBug ''assignee'' = Some (JNumber 7)"
    by (simp add: paddedBug_def)
  with four have assignee: "map_of sd ''assignee'' = Some (JNumber 7)"
    by simp
  have "map_of paddedBug ''severity'' = Some (JString '' s '')"
    by (simp add: paddedBug_def)
  with other have severity: "map_of sd ''severity'' = Some (JString '' s '')"
    by simp
  have "keys paddedBug = [''title'', ''severity'', ''assignee'', ''tags'']"
    by (simp add: paddedBug_def keys_def)
  with ks have ks': "keys sd = [''title'', ''severity'', ''assignee'', ''tags'']"
    by simp
  from sd ks' title assignee severity total show ?thesis
    by - (rule exI [of _ sd], intro conjI, assumption+)
qed

text \<open>
  C7 as stated fails on \<open>tags\<close>: it is a field other than the four text fields, and
  sanitization changes it.
\<close>
theorem sanitize_changes_tags_counterexample:
  "''tags'' \<notin> {''title'', ''description'', ''reporter'', ''assignee''}
   \<and> sanitizeBugData (JObject paddedBug)
       = Inr [(''title'', JString ''a''), (''severity'', JString '' s ''),
              (''assignee'', JNumber 7), (''tags'', JArray [JString ''x''])]
   \<and> map_of paddedBug ''tags'' = Some (JArray [JString '' x '', JNumber 1])
   \<and> JArray [JString ''x''] \<noteq> JArray [JString '' x '', JNumber 1]"
proof -
  have t: "trim '' a '' = ''a''" "trim '' x '' = ''x''"
    by (simp_all add: trim_def isWhiteSpace_def)
  have "sanitized paddedBug
      = [(''title'', JString ''a''), (''severity'', JString '' s ''),
         (''assignee'', JNumber 7), (''tags'', JArray [JString ''x''])]"
    by (simp add: sanitized_def paddedBug_def trimUpdate_def tagsUpdate_def property_def t)
  then show ?thesis
    by (simp add: sanitizeBugData_eq paddedBug_def)
qed

section \<open>C6: the shape of an identifier\<close>

lemma hexClass_iff: "hexClass c \<longleftrightarrow> c \<in> set ''0123456789abcdefABCDEF''"
proof
  assume "c \<in> set ''0123456789abcdefABCDEF''"
  then show "hexClass c"
    by (auto simp: hexClass_def)
next
  assume h: "hexClass c"
  define n where "n = (of_char c :: nat)"
  have c: "c = char_of n" by (simp add: n_def)
  from h have "n \<in> {48, 49, 50, 51, 52, 53, 54, 55, 56, 57, 97, 98, 99, 100, 101, 102,
      65, 66, 67, 68, 69, 70}"
    unfolding hexClass_def n_def [symmetric] Let_def by (simp) arith
  then show "c \<in> set ''0123456789abcdefABCDEF''"
    unfolding c by (elim insertE emptyE) (simp_all add: char_of_def bit_0)
qed

lemma matchHex_iff: "matchHex n s \<longleftrightarrow> length s = n \<and> (\<forall>c\<in>set s. hexClass c)"
proof (induction n arbitrary: s)
  case 0
  show ?case by auto
next
  case (Suc n)
  show ?case by (cases s) (auto simp: Suc.IH)
qed

text \<open>
  C6. isValidObjectId accepts a token exactly when it has 24 characters, each of them one
  of the digits 0 to 9 or the letters a to f or A to F.
\<close>
theorem isValidObjectId_iff:
  "isValidObjectId s \<longleftrightarrow> length s = 24 \<and> set s \<subseteq> set ''0123456789abcdefABCDEF''"
  unfolding isValidObjectId_def matchHex_iff
  by (auto simp only: hexClass_iff subset_iff)

text \<open>C6 on the examples of the specification: 24 hex digits accepted, 23 rejected.\<close>
theorem isValidObjectId_iff_witness:
  "isValidObjectId ''507f1f77bcf86cd799439011''
   \<and> \<not> isValidObjectId ''507f1f77bcf86cd79943901''
   \<and> length ''507f1f77bcf86cd79943901'' = 23"
proof -
  have "length ''507f1f77bcf86cd799439011'' = 24" by simp
  moreover have "set ''507f1f77bcf86cd799439011'' \<subseteq> set ''0123456789abcdefABCDEF''"
    by simp
  ultimately have a: "isValidObjectId ''507f1f77bcf86cd799439011''"
    using isValidObjectId_iff [of "''507f1f77bcf86cd799439011''"] by (simp only: simp_thms)
  have l: "length ''507f1f77bcf86cd79943901'' = 23" by simp
  then have "\<not> isValidObjectId ''507f1f77bcf86cd79943901''"
    using isValidObjectId_iff [of "''507f1f77bcf86cd79943901''"] by simp
  with a l show ?thesis by simp
qed

section \<open>C8: a malformed identifier\<close>

text \<open>
  C8. When the id fails the check, each of the three handlers answers 400 and has made no
  call to the Record Store.
\<close>
theorem malformed_id_before_store:
  "\<not> isValidObjectId ident \<Longrightarrow>
     getBug Bug ident = (\<lparr>statusCode = 400, json = errorBody ''Invalid bug ID format''\<rparr>, [])
     \<and> putBug Bug now ident body
         = (\<lparr>statusCode = 400, json = errorBody ''Invalid bug ID format''\<rparr>, [])
     \<and> deleteBug Bug ident
         = (\<lparr>statusCode = 400, json = errorBody ''Invalid bug ID format''\<rparr>, [])"
  by (simp add: getBug_def putBug_def deleteBug_def)

text \<open>C8 on the identifier of 23 hex digits.\<close>
theorem malformed_id_before_store_witness:
  "\<not> isValidObjectId ''507f1f77bcf86cd79943901''
   \<and> statusCode (fst (getBug emptyStore ''507f1f77bcf86cd79943901'')) = 400
   \<and> snd (getBug emptyStore ''507f1f77bcf86cd79943901'') = []
   \<and> statusCode (fst (putBug emptyStore JNull ''507f1f77bcf86cd79943901'' statusOnly)) = 400
   \<and> snd (putBug emptyStore JNull ''507f1f77bcf86cd79943901'' statusOnly) = []
   \<and> statusCode (fst (deleteBug emptyStore ''507f1f77bcf86cd79943901'')) = 400
   \<and> snd (deleteBug emptyStore ''507f1f77bcf86cd79943901'') = []"
proof -
  have n: "\<not> isValidObjectId ''507f1f77bcf86cd79943901''"
    by (simp add: isValidObjectId_def matchHex_iff)
  from malformed_id_before_store [OF n, of emptyStore JNull statusOnly] n
  show ?thesis by simp
qed

section \<open>C4: when the update route validates\<close>

lemma single_other_key:
  assumes "\<not> length (keys sd) > 1" "\<exists>k\<in>set (keys sd). k \<noteq> ''status''"
  shows "property sd ''status'' = JUndefined"
proof -
  from assms obtain k v where "sd = [(k, v)]" "k \<noteq> ''status''"
    by (cases sd) (auto simp: keys_def)
  then show ?thesis by (simp add: property_def)
qed

lemma validate_returns: "\<exists>v. validateBugData (JObject sd) = Inr v"
  by (simp add: validateBugData_object)

lemma putBug_validated:
  assumes "isValidObjectId ident" "sanitizeBugData body = Inr sd"
    "length (keys sd) > 1 \<or> \<not> truthy (property sd ''status'')"
    "validateBugData (JObject sd) = Inr v"
  shows "\<not> isValid v \<Longrightarrow> putBug Bug now ident body = (validationFailed (errors v), [])"
    and "isValid v \<Longrightarrow> snd (putBug Bug now ident body)
           = [FindByIdAndUpdate ident (AList.update ''updatedAt'' now sd)]"
  using assms
  by (auto simp: putBug_def validationFailed_def Let_def split: sum.splits)

lemma putBug_skipped:
  assumes "isValidObjectId ident" "sanitizeBugData body = Inr sd"
    "\<not> (length (keys sd) > 1 \<or> \<not> truthy (property sd ''status''))"
  shows "snd (putBug Bug now ident body)
           = [FindByIdAndUpdate ident (AList.update ''updatedAt'' now sd)]"
  using assms
  by (auto simp: putBug_def Let_def split: sum.splits)

lemma status_only_invalid:
  assumes "keys sd = [''status'']"
  shows "\<exists>v. validateBugData (JObject sd) = Inr v \<and> \<not> isValid v"
proof -
  from assms obtain x where "sd = [(''status'', x)]"
    by (cases sd) (auto simp: keys_def)
  then have "property sd ''title'' = JUndefined"
    by (simp add: property_def)
  then show ?thesis
    by (simp add: validateBugData_object)
qed

text \<open>
  C4, amended. For a well-formed id and a body that sanitization accepts: if the sanitized
  body has more than one key, or a key other than \<open>status\<close>, or a falsy \<open>status\<close>, then
  validateBugData runs on it, a failure is answered by 400 with the itemized errors and no
  call to the Record Store, and a success goes on to the update. If the sanitized body has
  the one key \<open>status\<close> with a truthy value, validation is skipped: the update is made
  although validateBugData rejects such a body.
\<close>
theorem putBug_validation_gate:
  assumes "isValidObjectId ident" and "sanitizeBugData body = Inr sd"
  shows "(length (keys sd) > 1 \<or> (\<exists>k\<in>set (keys sd). k \<noteq> ''status'')
            \<or> \<not> truthy (property sd ''status'') \<longrightarrow>
          (\<exists>v. validateBugData (JObject sd) = Inr v
             \<and> (\<not> isValid v \<longrightarrow>
                  putBug Bug now ident body = (validationFailed (errors v), []))
             \<and> (isValid v \<longrightarrow>
                  snd (putBug Bug now ident body)
                    = [FindByIdAndUpdate ident (AList.update ''updatedAt'' now sd)])))
       \<and> (keys sd = [''status''] \<and> truthy (property sd ''status'') \<longrightarrow>
          snd (putBug Bug now ident body)
            = [FindByIdAndUpdate ident (AList.update ''updatedAt'' now sd)]
          \<and> (\<exists>v. validateBugData (JObject sd) = Inr v \<and> \<not> isValid v))"
proof (intro conjI impI)
  assume c: "length (keys sd) > 1 \<or> (\<exists>k\<in>set (keys sd). k \<noteq> ''status'')
            \<or> \<not> truthy (property sd ''status'')"
  have g: "length (keys sd) > 1 \<or> \<not> truthy (property sd ''status'')"
  proof (cases "length (keys sd) > 1")
    case True
    then show ?thesis by simp
  next
    case False
    with c have "(\<exists>k\<in>set (keys sd). k \<noteq> ''status'') \<or> \<not> truthy (property sd ''status'')"
      by simp
    then have "\<not> truthy (property sd ''status'')"
    proof
      assume e: "\<exists>k\<in>set (keys sd). k \<noteq> ''status''"
      from single_other_key [OF False e] show ?thesis by simp
    next
      assume "\<not> truthy (property sd ''status'')"
      then show ?thesis .
    qed
    then show ?thesis by simp
  qed
  obtain v where v: "validateBugData (JObject sd) = Inr v"
    using validate_returns by blast
  from putBug_validated [OF assms g v, of Bug now] v
  show "\<exists>v. validateBugData (JObject sd) = Inr v
             \<and> (\<not> isValid v \<longrightarrow>
                  putBug Bug now ident body = (validationFailed (errors v), []))
             \<and> (isValid v \<longrightarrow>
                  snd (putBug Bug now ident body)
                    = [FindByIdAndUpdate ident (AList.update ''updatedAt'' now sd)])"
    by - (rule exI [of _ v], simp)
next
  assume s: "keys sd = [''status''] \<and> truthy (property sd ''status'')"
  then have "\<not> (length (keys sd) > 1 \<or> \<not> truthy (property sd ''status''))"
    by simp
  from putBug_skipped [OF assms this]
  show "snd (putBug Bug now ident body)
            = [FindByIdAndUpdate ident (AList.update ''updatedAt'' now sd)]" .
  from s show "\<exists>v. validateBugData (JObject sd) = Inr v \<and> \<not> isValid v"
    by (simp add: status_only_invalid)
qed

text \<open>
  C4 on the two bodies: the status update reaches the Record Store without validation; the
  body with the empty status, whose only key is \<open>status\<close> as well, is validated.
\<close>
theorem putBug_validation_gate_witness:
  "isValidObjectId ''507f1f77bcf86cd799439011''
   \<and> sanitizeBugData statusOnly = Inr [(''status'', JString ''resolved'')]
   \<and> snd (putBug emptyStore JNull ''507f1f77bcf86cd799439011'' statusOnly)
       = [FindByIdAndUpdate ''507f1f77bcf86cd799439011''
            [(''status'', JString ''resolved''), (''updatedAt'', JNull)]]
   \<and> sanitizeBugData emptyStatusOnly = Inr [(''status'', JString '''')]
   \<and> (\<exists>v. validateBugData (JObject [(''status'', JString '''')]) = Inr v \<and> \<not> isValid v
          \<and> putBug emptyStore JNull ''507f1f77bcf86cd799439011'' emptyStatusOnly
              = (validationFailed (errors v), []))"
proof -
  have i: "isValidObjectId ''507f1f77bcf86cd799439011''"
    by (simp add: isValidObjectId_def matchHex_iff hexClass_iff)
  have s1: "sanitizeBugData statusOnly = Inr [(''status'', JString ''resolved'')]"
    by (simp add: sanitizeBugData_eq statusOnly_def sanitized_def trimUpdate_def
        tagsUpdate_def property_def)
  have s2: "sanitizeBugData emptyStatusOnly = Inr [(''status'', JString '''')]"
    by (simp add: sanitizeBugData_eq emptyStatusOnly_def sanitized_def trimUpdate_def
        tagsUpdate_def property_def)
  have k1: "keys [(''status'', JString ''resolved'')] = [''status'']
      \<and> truthy (property [(''status'', JString ''resolved'')] ''status'')"
    by (simp add: keys_def property_def)
  have k2: "length (keys [(''status'', JString '''')]) > 1
      \<or> (\<exists>k\<in>set (keys [(''status'', JString '''')]). k \<noteq> ''status'')
      \<or> \<not> truthy (property [(''status'', JString '''')] ''status'')"
    by (simp add: property_def)
  from putBug_validation_gate [OF i s1, of emptyStore JNull]
  have "keys [(''status'', JString ''resolved'')] = [''status'']
      \<and> truthy (property [(''status'', JString ''resolved'')] ''status'') \<longrightarrow>
    snd (putBug emptyStore JNull ''507f1f77bcf86cd799439011'' statusOnly)
       = [FindByIdAndUpdate ''507f1f77bcf86cd799439011''
            (AList.update ''updatedAt'' JNull [(''status'', JString ''resolved'')])]
    \<and> (\<exists>v. validateBugData (JObject [(''status'', JString ''resolved'')]) = Inr v
          \<and> \<not> isValid v)"
    by (rule conjunct2)
  from this k1 have "snd (putBug emptyStore JNull ''507f1f77bcf86cd799439011'' statusOnly)
       = [FindByIdAndUpdate ''507f1f77bcf86cd799439011''
            (AList.update ''updatedAt'' JNull [(''status'', JString ''resolved'')])]
    \<and> (\<exists>v. validateBugData (JObject [(''status'', JString ''resolved'')]) = Inr v
          \<and> \<not> isValid v)"
    by (rule mp)
  then have a: "snd (putBug emptyStore JNull ''507f1f77bcf86cd799439011'' statusOnly)
       = [FindByIdAndUpdate ''507f1f77bcf86cd799439011''
            (AList.update ''updatedAt'' JNull [(''status'', JString ''resolved'')])]"
    by (rule conjunct1)
  from putBug_validation_gate [OF i s2, of emptyStore JNull]
  have "length (keys [(''status'', JString '''')]) > 1
      \<or> (\<exists>k\<in>set (keys [(''status'', JString '''')]). k \<noteq> ''status'')
      \<or> \<not> truthy (property [(''status'', JString '''')] ''status'') \<longrightarrow>
     (\<exists>v. validateBugData (JObject [(''status'', JString '''')]) = Inr v
         \<and> (\<not> isValid v \<longrightarrow>
              putBug emptyStore JNull ''507f1f77bcf86cd799439011'' emptyStatusOnly
                = (validationFailed (errors v), []))
         \<and> (isValid v \<longrightarrow>
              snd (putBug emptyStore JNull ''507f1f77bcf86cd799439011'' emptyStatusOnly)
                = [FindByIdAndUpdate ''507f1f77bcf86cd799439011''
                     (AList.update ''updatedAt'' JNull [(''status'', JString '''')])]))"
    by (rule conjunct1)
  from this k2 have "\<exists>v. validateBugData (JObject [(''status'', JString '''')]) = Inr v
         \<and> (\<not> isValid v \<longrightarrow>
              putBug emptyStore JNull ''507f1f77bcf86cd799439011'' emptyStatusOnly
                = (validationFailed (errors v), []))
         \<and> (isValid v \<longrightarrow>
              snd (putBug emptyStore JNull ''507f1f77bcf86cd799439011'' emptyStatusOnly)
                = [FindByIdAndUpdate ''507f1f77bcf86cd799439011''
                     (AList.update ''updatedAt'' JNull [(''status'', JString '''')])])"
    by (rule mp)
  then obtain v where v: "validateBugData (JObject [(''status'', JString '''')]) = Inr v"
    and f: "\<not> isValid v \<longrightarrow>
       putBug emptyStore JNull ''507f1f77bcf86cd799439011'' emptyStatusOnly
         = (validationFailed (errors v), [])"
    by (elim exE conjE)
  from v have nv: "\<not> isValid v"
    by (auto simp: validateBugData_object property_def)
  with f have b: "putBug emptyStore JNull ''507f1f77bcf86cd799439011'' emptyStatusOnly
         = (validationFailed (errors v), [])" ..
  from v nv b have c: "\<exists>v. validateBugData (JObject [(''status'', JString '''')]) = Inr v
          \<and> \<not> isValid v
          \<and> putBug emptyStore JNull ''507f1f77bcf86cd799439011'' emptyStatusOnly
              = (validationFailed (errors v), [])"
    by - (rule exI [of _ v], intro conjI, assumption+)
  from a have a': "snd (putBug emptyStore JNull ''507f1f77bcf86cd799439011'' statusOnly)
       = [FindByIdAndUpdate ''507f1f77bcf86cd799439011''
            [(''status'', JString ''resolved''), (''updatedAt'', JNull)]]"
    by simp
  from i s1 a' s2 c show ?thesis
    by (intro conjI)
qed

text \<open>
  C4 as stated fails on a body whose only key is \<open>status\<close> with the empty string: validation
  is not skipped, and the answer is 400 with the errors of the missing fields.
\<close>
theorem putBug_empty_status_counterexample:
  "keys [(''status'', JString '''')] = [''status'']
   \<and> sanitizeBugData emptyStatusOnly = Inr [(''status'', JString '''')]
   \<and> putBug emptyStore JNull ''507f1f77bcf86cd799439011'' emptyStatusOnly
       = (validationFailed
            [''Title is required and must be a string'',
             ''Description is required and must be a string'',
             ''Status must be one of: open, in-progress, resolved, closed'',
             ''Reporter is required and must be a string''], [])"
proof -
  have i: "isValidObjectId ''507f1f77bcf86cd799439011''"
    by (simp add: isValidObjectId_def matchHex_iff hexClass_iff)
  have s: "sanitizeBugData emptyStatusOnly = Inr [(''status'', JString '''')]"
    by (simp add: sanitizeBugData_eq emptyStatusOnly_def sanitized_def trimUpdate_def
        tagsUpdate_def property_def)
  have v: "validateBugData (JObject [(''status'', JString '''')])
      = Inr \<lparr>isValid = False,
             errors = [''Title is required and must be a string'',
               ''Description is required and must be a string'',
               ''Status must be one of: open, in-progress, resolved, closed'',
               ''Reporter is required and must be a string'']\<rparr>"
    by (simp add: validateBugData_object property_def statusErrors_def validStatuses_def
        priorityErrors_def assigneeErrors_def)
  have "putBug emptyStore JNull ''507f1f77bcf86cd799439011'' emptyStatusOnly
       = (validationFailed
            [''Title is required and must be a string'',
             ''Description is required and must be a string'',
             ''Status must be one of: open, in-progress, resolved, closed'',
             ''Reporter is required and must be a string''], [])"
    by (simp add: putBug_def i s v property_def validationFailed_def)
  with s show ?thesis
    by (simp add: keys_def)
qed

section \<open>C9: the filter of the list\<close>

lemma stringIncludes_sublist: "stringIncludes s t \<longleftrightarrow> sublist t s"
  by (induction s) (simp_all add: sublist_Cons_right)

lemma toLowerCase_Nil: "toLowerCase [] = []"
  by (simp add: toLowerCase_def)

lemma toLowerCase_Nil_iff: "toLowerCase q = [] \<longleftrightarrow> q = []"
  by (simp add: toLowerCase_def)

lemma searchMatch_searchHit:
  "q \<noteq> [] \<Longrightarrow> searchMatch (toLowerCase q) b \<longleftrightarrow> searchHit q b"
  by (auto simp: searchMatch_def searchHit_def stringIncludes_sublist list_ex_iff
      toLowerCase_Nil_iff toLowerCase_Nil split: option.splits)

lemma applyFilter_meetsCriteria: "applyFilter f bs = filter (meetsCriteria f) bs"
proof -
  have s: "searchMatch (toLowerCase (filterSearch f)) = searchHit (filterSearch f)"
    if "filterSearch f \<noteq> []"
    using that by (intro ext) (rule searchMatch_searchHit)
  have m: "meetsCriteria f =
      (\<lambda>b. (filterStatus f = [] \<or> status b = filterStatus f)
         \<and> (filterPriority f = [] \<or> priority b = filterPriority f)
         \<and> (filterSearch f = [] \<or> searchHit (filterSearch f) b))"
    by (intro ext) (simp only: meetsCriteria_def)
  show ?thesis
    unfolding m applyFilter_def Let_def
    by (cases "filterStatus f = []"; cases "filterPriority f = []";
        cases "filterSearch f = []") (simp_all add: s)
qed

lemma searchHit_lower:
  "toLowerCase q = toLowerCase q' \<Longrightarrow> searchHit q b = searchHit q' b"
  unfolding searchHit_def by (simp only:)

lemma meetsCriteria_lower:
  assumes "toLowerCase q = toLowerCase q'"
  shows "meetsCriteria (f\<lparr>filterSearch := q\<rparr>) b = meetsCriteria (f\<lparr>filterSearch := q'\<rparr>) b"
proof -
  from assms have "(toLowerCase q = []) = (toLowerCase q' = [])"
    by (simp only:)
  then have "(q = []) = (q' = [])"
    by (simp only: toLowerCase_Nil_iff)
  then show ?thesis
    by (simp add: meetsCriteria_def searchHit_lower [OF assms])
qed

text \<open>
  C9. The filter returns the records of the list that meet every criterion that is not
  empty, in the order of the list; the effect that computes it leaves the list and the
  criteria as they are. With a status and a search term the result is the intersection of
  the results of the status alone and of the search alone. Two search terms with the same
  lower-case form select the same records.
\<close>
theorem applyFilter_subsequence:
  "applyFilter f bs = filter (meetsCriteria f) bs
   \<and> subseq (applyFilter f bs) bs
   \<and> bugs (filterEffect st) = bugs st
   \<and> currentFilter (filterEffect st) = currentFilter st
   \<and> filteredBugs (filterEffect st) = applyFilter (currentFilter st) (bugs st)
   \<and> set (applyFilter \<lparr>filterStatus = s, filterPriority = [], filterSearch = q\<rparr> bs)
       = set (applyFilter \<lparr>filterStatus = s, filterPriority = [], filterSearch = []\<rparr> bs)
         \<inter> set (applyFilter \<lparr>filterStatus = [], filterPriority = [], filterSearch = q\<rparr> bs)
   \<and> (toLowerCase q = toLowerCase q' \<longrightarrow>
        applyFilter (f\<lparr>filterSearch := q\<rparr>) bs = applyFilter (f\<lparr>filterSearch := q'\<rparr>) bs)"
proof (intro conjI impI)
  show "applyFilter f bs = filter (meetsCriteria f) bs"
    by (rule applyFilter_meetsCriteria)
  show "subseq (applyFilter f bs) bs"
    by (simp add: applyFilter_meetsCriteria)
  show "bugs (filterEffect st) = bugs st"
    by (simp add: filterEffect_def)
  show "currentFilter (filterEffect st) = currentFilter st"
    by (simp add: filterEffect_def)
  show "filteredBugs (filterEffect st) = applyFilter (currentFilter st) (bugs st)"
    by (simp add: filterEffect_def)
  show "set (applyFilter \<lparr>filterStatus = s, filterPriority = [], filterSearch = q\<rparr> bs)
       = set (applyFilter \<lparr>filterStatus = s, filterPriority = [], filterSearch = []\<rparr> bs)
         \<inter> set (applyFilter \<lparr>filterStatus = [], filterPriority = [], filterSearch = q\<rparr> bs)"
    by (auto simp: applyFilter_meetsCriteria meetsCriteria_def)
next
  assume a: "toLowerCase q = toLowerCase q'"
  have "meetsCriteria (f\<lparr>filterSearch := q\<rparr>) = meetsCriteria (f\<lparr>filterSearch := q'\<rparr>)"
    by (intro ext) (rule meetsCriteria_lower [OF a])
  then show "applyFilter (f\<lparr>filterSearch := q\<rparr>) bs = applyFilter (f\<lparr>filterSearch := q'\<rparr>) bs"
    by (simp only: applyFilter_meetsCriteria)
qed

text \<open>
  C9 on the records of the integration test: the status \<open>open\<close> keeps the first and the
  third record in this order, and the search terms \<open>FRONTEND\<close> and \<open>frontend\<close> select the
  same record.
\<close>
theorem applyFilter_subsequence_witness:
  "applyFilter \<lparr>filterStatus = ''open'', filterPriority = [], filterSearch = []\<rparr> mockBugs
     = [frontendBug, databaseBug]
   \<and> toLowerCase ''FRONTEND'' = toLowerCase ''frontend''
   \<and> applyFilter \<lparr>filterStatus = ''open'', filterPriority = [], filterSearch = ''FRONTEND''\<rparr>
        mockBugs
       = applyFilter \<lparr>filterStatus = ''open'', filterPriority = [], filterSearch = ''frontend''\<rparr>
           mockBugs
   \<and> applyFilter \<lparr>filterStatus = ''open'', filterPriority = [], filterSearch = ''frontend''\<rparr>
        mockBugs = [frontendBug]"
proof -
  let ?f = "\<lparr>filterStatus = ''open'', filterPriority = [], filterSearch = []\<rparr>"
  let ?g = "\<lparr>filterStatus = ''open'', filterPriority = [], filterSearch = ''frontend''\<rparr>"
  let ?st = "\<lparr>bugs = mockBugs, currentFilter = ?f, filteredBugs = []\<rparr>"
  have l: "toLowerCase ''FRONTEND'' = toLowerCase ''frontend''"
    by code_simp
  have e1: "filter (meetsCriteria ?f) mockBugs = [frontendBug, databaseBug]"
    by code_simp
  have e2: "filter (meetsCriteria ?g) mockBugs = [frontendBug]"
    by code_simp
  note t = applyFilter_subsequence [of ?f mockBugs ?st "''open''" "''FRONTEND''" "''frontend''"]
  from t have a: "applyFilter ?f mockBugs = filter (meetsCriteria ?f) mockBugs"
    by (rule conjunct1)
  from t have i: "toLowerCase ''FRONTEND'' = toLowerCase ''frontend'' \<longrightarrow>
        applyFilter (?f\<lparr>filterSearch := ''FRONTEND''\<rparr>) mockBugs
          = applyFilter (?f\<lparr>filterSearch := ''frontend''\<rparr>) mockBugs"
    by - (elim conjE, assumption)
  from i l have "applyFilter (?f\<lparr>filterSearch := ''FRONTEND''\<rparr>) mockBugs
          = applyFilter (?f\<lparr>filterSearch := ''frontend''\<rparr>) mockBugs"
    by (rule mp)
  then have c: "applyFilter
        \<lparr>filterStatus = ''open'', filterPriority = [], filterSearch = ''FRONTEND''\<rparr> mockBugs
      = applyFilter ?g mockBugs"
    by simp
  from applyFilter_subsequence [of ?g mockBugs ?st "''open''" "''FRONTEND''" "''frontend''"]
  have b: "applyFilter ?g mockBugs = filter (meetsCriteria ?g) mockBugs"
    by (rule conjunct1)
  from a e1 l c b e2 show ?thesis
    by (simp only: simp_thms)
qed


end
